theory Spec2Isabelle
  imports Complex_Main "HOL-Library.AList"
begin

section \<open>Data model (models/Event.js, models/User.js)\<close>

text \<open>
  An ObjectId is modelled by the lower-case hexadecimal string that \<^verbatim>\<open>toString()\<close>
  yields (type \<open>oid\<close>). Route parameters and \<^verbatim>\<open>req.user.id\<close> are given in that form:
  every use the handlers make of them goes through a cast or through \<^verbatim>\<open>toString()\<close>.
  The \<^verbatim>\<open>userId\<close> of the admin registration body is the one id that the code uses
  both as the raw string and cast; there it is a \<open>string\<close> and the cast is explicit.
  A \<^verbatim>\<open>Date\<close> is its number of milliseconds since the epoch, a \<^verbatim>\<open>Number\<close>
  holding a counter is an \<open>int\<close>. A document's own \<^verbatim>\<open>_id\<close> is the key under which
  its collection stores it.
\<close>

type_synonym oid = string
type_synonym date = int

datatype json =
    JNull
  | JBool bool
  | JNum int
  | JDate date
  | JStr string
  | JArr "json list"
  | JObj "(string \<times> json) list"

text \<open>A team member as the body gives it; the schema requires \<^verbatim>\<open>name\<close>.\<close>

record team_member =
  tm_name :: "string option"
  tm_email :: "string option"
  tm_phone :: "string option"
  tm_role :: "string option"
  tm_institution :: "string option"

text \<open>
  The request body of a registration, as far as \<^verbatim>\<open>registerUser\<close> reads it. Each field
  has the type of the schema path it is stored under; a field that is absent is \<open>None\<close>.
\<close>

record registration_data =
  rd_phone :: "string option"
  rd_alternateEmail :: "string option"
  rd_teamName :: "string option"
  rd_teamSize :: "int option"
  rd_teamMembers :: "team_member list option"
  rd_institution :: "string option"
  rd_experience :: "string option"
  rd_motivation :: "string option"
  rd_specialRequirements :: "string option"

text \<open>An entry of \<^verbatim>\<open>participants\<close>; \<open>p_id\<close> is the subdocument's own \<^verbatim>\<open>_id\<close>.\<close>

record participant =
  p_id :: oid
  p_user :: oid
  p_registeredAt :: date
  p_status :: string
  p_phone :: "string option"
  p_alternateEmail :: "string option"
  p_teamName :: "string option"
  p_teamSize :: int
  p_teamMembers :: "team_member list"
  p_institution :: "string option"
  p_experience :: "string option"
  p_motivation :: "string option"
  p_specialRequirements :: "string option"
  p_paymentStatus :: string
  p_paymentId :: "string option"
  p_checkedIn :: bool
  p_checkedInAt :: "date option"

text \<open>
  The \<^verbatim>\<open>registration\<close> sub-document. \<open>r_other\<close> carries the paths no operation
  below reads (fee, requirements, teamSize), already serialised.
\<close>

record registration =
  deadline :: date
  maxParticipants :: "int option"
  currentParticipants :: int
  r_other :: "(string \<times> json) list"

text \<open>
  An event document. \<open>e_other\<close> carries the schema paths no operation below reads
  (description, category, dateTime, prizes, likes, ...), already serialised.
\<close>

record event =
  title :: string
  organizer_user :: oid
  organizer_name :: string
  registration :: registration
  participants :: "participant list"
  e_status :: string
  views :: int
  e_other :: "(string \<times> json) list"

text \<open>An entry of a user's \<^verbatim>\<open>registeredEvents\<close>.\<close>

record registered_event =
  re_event :: oid
  re_registeredAt :: date
  re_status :: string

record user =
  u_name :: string
  u_email :: string
  u_role :: string
  u_avatar :: string
  u_profile :: "(string \<times> json) list"
  registeredEvents :: "registered_event list"

section \<open>Event methods (models/Event.js)\<close>

text \<open>What the handlers' \<^verbatim>\<open>try\<close> blocks can catch.\<close>

datatype error = TypeError | ValidationError | CastError

record can_register_result =
  canRegister :: bool
  reason :: "string option"

text \<open>
  \<^verbatim>\<open>canUserRegister(userId)\<close>; \<open>now\<close> is the value of \<^verbatim>\<open>new Date()\<close>. The
  deadline test is the source's \<^verbatim>\<open>now > this.registration.deadline\<close>.
\<close>

definition canUserRegister :: "event \<Rightarrow> date \<Rightarrow> oid \<Rightarrow> can_register_result" where
  "canUserRegister e now userId =
     (if now > deadline (registration e)
      then \<lparr>canRegister = False, reason = Some ''Registration deadline has passed''\<rparr>
      else if list_ex (\<lambda>p. p_user p = userId) (participants e)
      then \<lparr>canRegister = False, reason = Some ''Already registered''\<rparr>
      else \<lparr>canRegister = True, reason = None\<rparr>)"

text \<open>
  The participant that \<^verbatim>\<open>registerUser\<close> pushes. \<open>pid\<close> is the \<^verbatim>\<open>_id\<close> the
  document array gives the new entry, \<open>now\<close> the value of \<^verbatim>\<open>new Date()\<close>;
  \<^verbatim>\<open>paymentStatus\<close> and \<^verbatim>\<open>checkedIn\<close> take their schema defaults.
  \<^verbatim>\<open>registrationData.teamSize || 1\<close> turns an absent or zero team size into 1,
  \<^verbatim>\<open>registrationData.teamMembers || []\<close> an absent list into the empty one.
\<close>

definition new_participant :: "oid \<Rightarrow> date \<Rightarrow> oid \<Rightarrow> registration_data \<Rightarrow> participant" where
  "new_participant pid now userId rd =
     \<lparr>p_id = pid,
      p_user = userId,
      p_registeredAt = now,
      p_status = ''registered'',
      p_phone = rd_phone rd,
      p_alternateEmail = rd_alternateEmail rd,
      p_teamName = rd_teamName rd,
      p_teamSize = (case rd_teamSize rd of None \<Rightarrow> 1 | Some n \<Rightarrow> if n = 0 then 1 else n),
      p_teamMembers = (case rd_teamMembers rd of None \<Rightarrow> [] | Some ms \<Rightarrow> ms),
      p_institution = rd_institution rd,
      p_experience = rd_experience rd,
      p_motivation = rd_motivation rd,
      p_specialRequirements = rd_specialRequirements rd,
      p_paymentStatus = ''pending'',
      p_paymentId = None,
      p_checkedIn = False,
      p_checkedInAt = None\<rparr>"

text \<open>
  \<^verbatim>\<open>save()\<close> validates the document against the schema and rejects it with a
  validation error, storing nothing. Documents in the store are taken to satisfy the
  schema, and the entry that \<^verbatim>\<open>registerUser\<close> pushes has enum members for
  \<^verbatim>\<open>status\<close> and \<^verbatim>\<open>paymentStatus\<close>; what the body can break is the
  \<^verbatim>\<open>required\<close> name of a team member (a missing or empty string).
\<close>

definition member_name_present :: "team_member \<Rightarrow> bool" where
  "member_name_present m = (case tm_name m of None \<Rightarrow> False | Some n \<Rightarrow> n \<noteq> [])"

text \<open>
  \<^verbatim>\<open>registerUser(userId, registrationData)\<close>: push, then count, then
  \<^verbatim>\<open>return this.save()\<close>. \<open>Inr\<close> is the document as saved, \<open>Inl\<close> the rejection.
\<close>

definition registerUser ::
  "event \<Rightarrow> oid \<Rightarrow> date \<Rightarrow> oid \<Rightarrow> registration_data \<Rightarrow> error + event" where
  "registerUser e pid now userId rd =
     (let p = new_participant pid now userId rd;
          e' = e\<lparr>participants := participants e @ [p],
                 registration := (registration e)
                   \<lparr>currentParticipants := currentParticipants (registration e) + 1\<rparr>\<rparr>
      in if list_all member_name_present (p_teamMembers p) then Inr e'
         else Inl ValidationError)"

text \<open>
  \<^verbatim>\<open>unregisterUser(userId)\<close>: filter, then \<^verbatim>\<open>Math.max(0, count - 1)\<close>. Its
  \<^verbatim>\<open>save()\<close> adds nothing to a document that satisfied the schema.
\<close>

definition unregisterUser :: "event \<Rightarrow> oid \<Rightarrow> event" where
  "unregisterUser e userId =
     e\<lparr>participants := filter (\<lambda>p. p_user p \<noteq> userId) (participants e),
       registration := (registration e)
         \<lparr>currentParticipants := max 0 (currentParticipants (registration e) - 1)\<rparr>\<rparr>"

text \<open>The default \<^verbatim>\<open>registrationData = {}\<close> of \<^verbatim>\<open>registerUser\<close>.\<close>

definition empty_registration_data :: registration_data where
  "empty_registration_data =
     \<lparr>rd_phone = None, rd_alternateEmail = None, rd_teamName = None, rd_teamSize = None,
      rd_teamMembers = None, rd_institution = None, rd_experience = None,
      rd_motivation = None, rd_specialRequirements = None\<rparr>"

section \<open>The store and the request context\<close>

text \<open>
  The two collections, keyed by \<^verbatim>\<open>_id\<close>. The driver is taken to succeed: a failing
  read or write is outside this model. \<open>req_user\<close> is what the authentication
  middleware (not part of the sources at hand) leaves in \<^verbatim>\<open>req.user\<close>.
\<close>

record db =
  events :: "oid \<rightharpoonup> event"
  users :: "oid \<rightharpoonup> user"

record req_user =
  ru_id :: oid
  ru_role :: string

record response =
  code :: nat
  success :: bool
  message :: "string option"
  data :: "json option"

definition failure :: "nat \<Rightarrow> string \<Rightarrow> response" where
  "failure c m = \<lparr>code = c, success = False, message = Some m, data = None\<rparr>"

text \<open>
  What one registration request reads from its surroundings: the three clock readings
  (\<^verbatim>\<open>new Date()\<close> in \<^verbatim>\<open>canUserRegister\<close>, \<^verbatim>\<open>new Date()\<close> in
  \<^verbatim>\<open>registerUser\<close>, the \<^verbatim>\<open>Date.now\<close> default of the mirrored entry) and the
  \<^verbatim>\<open>_id\<close> generated for the new participant.
\<close>

record env =
  t_check :: date
  t_push :: date
  t_mirror :: date
  new_pid :: oid

text \<open>\<^verbatim>\<open>User.findByIdAndUpdate(id, {$push: {registeredEvents: r}})\<close>\<close>

definition push_registeredEvent :: "db \<Rightarrow> oid \<Rightarrow> registered_event \<Rightarrow> db" where
  "push_registeredEvent s uid r =
     (case users s uid of
        None \<Rightarrow> s
      | Some u \<Rightarrow> s\<lparr>users := (users s)(uid \<mapsto> u\<lparr>registeredEvents := registeredEvents u @ [r]\<rparr>)\<rparr>)"

text \<open>\<^verbatim>\<open>User.findByIdAndUpdate(id, {$pull: {registeredEvents: {event: eid}}})\<close>\<close>

definition pull_registeredEvent :: "db \<Rightarrow> oid \<Rightarrow> oid \<Rightarrow> db" where
  "pull_registeredEvent s uid eid =
     (case users s uid of
        None \<Rightarrow> s
      | Some u \<Rightarrow> s\<lparr>users := (users s)(uid \<mapsto>
          u\<lparr>registeredEvents := filter (\<lambda>r. re_event r \<noteq> eid) (registeredEvents u)\<rparr>)\<rparr>)"

text \<open>The positional \<^verbatim>\<open>$set 'registeredEvents.$.status'\<close>: the first matching entry.\<close>

fun set_first_status :: "oid \<Rightarrow> string \<Rightarrow> registered_event list \<Rightarrow> registered_event list" where
  "set_first_status eid st [] = []"
| "set_first_status eid st (r # rs) =
     (if re_event r = eid then r\<lparr>re_status := st\<rparr> # rs
      else r # set_first_status eid st rs)"

definition set_registeredEvent_status :: "db \<Rightarrow> oid \<Rightarrow> oid \<Rightarrow> string \<Rightarrow> db" where
  "set_registeredEvent_status s uid eid st =
     (case users s uid of
        None \<Rightarrow> s
      | Some u \<Rightarrow> s\<lparr>users := (users s)(uid \<mapsto>
          u\<lparr>registeredEvents := set_first_status eid st (registeredEvents u)\<rparr>)\<rparr>)"

text \<open>\<^verbatim>\<open>event.save()\<close>\<close>

definition save_event :: "db \<Rightarrow> oid \<Rightarrow> event \<Rightarrow> db" where
  "save_event s eid e = s\<lparr>events := (events s)(eid \<mapsto> e)\<rparr>"

section \<open>Registration handlers (routes/events.js)\<close>

text \<open>\<^verbatim>\<open>POST /api/events/:id/register\<close>\<close>

definition register_handler ::
  "db \<Rightarrow> env \<Rightarrow> oid \<Rightarrow> req_user \<Rightarrow> registration_data \<Rightarrow> response \<times> db" where
  "register_handler s v eid ru body =
     (case events s eid of
        None \<Rightarrow> (failure 404 ''Event not found'', s)
      | Some e \<Rightarrow>
          let c = canUserRegister e (t_check v) (ru_id ru) in
          if \<not> canRegister c
          then (\<lparr>code = 400, success = False, message = reason c, data = None\<rparr>, s)
          else
            (case registerUser e (new_pid v) (t_push v) (ru_id ru) body of
               Inl err \<Rightarrow> (failure 500 ''Server error while registering for event'', s)
             | Inr e' \<Rightarrow>
                 let s' = save_event s eid e';
                     s'' = push_registeredEvent s' (ru_id ru)
                             \<lparr>re_event = eid, re_registeredAt = t_mirror v,
                              re_status = ''registered''\<rparr>
                 in (\<lparr>code = 200, success = True,
                      message = Some ''Successfully registered for the event'',
                      data = Some (JObj [(''eventId'', JStr eid),
                                         (''eventTitle'', JStr (title e'))])\<rparr>,
                     s'')))"

text \<open>\<^verbatim>\<open>DELETE /api/events/:id/register\<close>\<close>

definition unregister_handler :: "db \<Rightarrow> oid \<Rightarrow> req_user \<Rightarrow> response \<times> db" where
  "unregister_handler s eid ru =
     (case events s eid of
        None \<Rightarrow> (failure 404 ''Event not found'', s)
      | Some e \<Rightarrow>
          if \<not> list_ex (\<lambda>p. p_user p = ru_id ru) (participants e)
          then (failure 400 ''You are not registered for this event'', s)
          else
            let s' = save_event s eid (unregisterUser e (ru_id ru));
                s'' = pull_registeredEvent s' (ru_id ru) eid
            in (\<lparr>code = 200, success = True,
                 message = Some ''Successfully unregistered from the event'', data = None\<rparr>,
                s''))"

text \<open>
  \<^verbatim>\<open>POST /api/events/:id/admin-register\<close>, reached only through
  \<^verbatim>\<open>authorize('admin')\<close>. \<open>userId\<close> is \<^verbatim>\<open>req.body.userId\<close>, a raw string; an
  absent or empty one is falsy. \<open>cast\<close> is the cast of a string to an ObjectId, which
  belongs to the database library and not to the sources at hand: \<^verbatim>\<open>User.findById\<close>,
  the push in \<^verbatim>\<open>registerUser\<close> and \<^verbatim>\<open>User.findByIdAndUpdate\<close> apply it (a string
  that does not cast makes \<^verbatim>\<open>findById\<close> throw), while the duplicate test
  \<^verbatim>\<open>p.user.toString() === userId\<close> compares with the raw string. The handler never
  calls \<^verbatim>\<open>canUserRegister\<close>.
\<close>

definition admin_register_handler ::
  "(string \<Rightarrow> oid option) \<Rightarrow> db \<Rightarrow> env \<Rightarrow> oid \<Rightarrow> string option \<Rightarrow> response \<times> db" where
  "admin_register_handler cast s v eid userId =
     (case userId of
        None \<Rightarrow> (failure 400 ''User ID is required'', s)
      | Some raw \<Rightarrow>
          if raw = [] then (failure 400 ''User ID is required'', s)
          else
            (case events s eid of
               None \<Rightarrow> (failure 404 ''Event not found'', s)
             | Some e \<Rightarrow>
                 (case cast raw of
                    None \<Rightarrow> (failure 500 ''Server error while registering user for event'', s)
                  | Some uid \<Rightarrow>
                      (case users s uid of
                         None \<Rightarrow> (failure 404 ''User not found'', s)
                       | Some u \<Rightarrow>
                           if list_ex (\<lambda>p. p_user p = raw) (participants e)
                           then (failure 400 ''User is already registered for this event'', s)
                           else
                             (case registerUser e (new_pid v) (t_push v) uid
                                     empty_registration_data of
                                Inl err \<Rightarrow>
                                  (failure 500
                                     ''Server error while registering user for event'', s)
                              | Inr e' \<Rightarrow>
                                  let s' = save_event s eid e';
                                      s'' = push_registeredEvent s' uid
                                              \<lparr>re_event = eid, re_registeredAt = t_mirror v,
                                               re_status = ''confirmed''\<rparr>
                                  in (\<lparr>code = 200, success = True,
                                       message = Some ''User registered for event successfully'',
                                       data = Some (JObj [(''eventId'', JStr eid),
                                                          (''userId'', JStr raw)])\<rparr>,
                                      s''))))))"

section \<open>Serialisation (\<^verbatim>\<open>toObject\<close>, \<^verbatim>\<open>populate\<close>)\<close>

text \<open>A path whose value is \<^verbatim>\<open>undefined\<close> has no key in the plain object.\<close>

definition opt_str :: "string \<Rightarrow> string option \<Rightarrow> (string \<times> json) list" where
  "opt_str k v = (case v of None \<Rightarrow> [] | Some x \<Rightarrow> [(k, JStr x)])"

definition opt_date :: "string \<Rightarrow> date option \<Rightarrow> (string \<times> json) list" where
  "opt_date k v = (case v of None \<Rightarrow> [] | Some x \<Rightarrow> [(k, JDate x)])"

definition team_member_json :: "team_member \<Rightarrow> json" where
  "team_member_json m =
     JObj (opt_str ''name'' (tm_name m) @ opt_str ''email'' (tm_email m)
           @ opt_str ''phone'' (tm_phone m) @ opt_str ''role'' (tm_role m)
           @ opt_str ''institution'' (tm_institution m))"

text \<open>A participant entry; \<open>u\<close> is what stands under its \<^verbatim>\<open>user\<close> path.\<close>

definition participant_json :: "json \<Rightarrow> participant \<Rightarrow> json" where
  "participant_json u p =
     JObj ([(''user'', u),
            (''registeredAt'', JDate (p_registeredAt p)),
            (''status'', JStr (p_status p))]
           @ opt_str ''phone'' (p_phone p)
           @ opt_str ''alternateEmail'' (p_alternateEmail p)
           @ opt_str ''teamName'' (p_teamName p)
           @ [(''teamSize'', JNum (p_teamSize p)),
              (''teamMembers'', JArr (map team_member_json (p_teamMembers p)))]
           @ opt_str ''institution'' (p_institution p)
           @ opt_str ''experience'' (p_experience p)
           @ opt_str ''motivation'' (p_motivation p)
           @ opt_str ''specialRequirements'' (p_specialRequirements p)
           @ [(''paymentStatus'', JStr (p_paymentStatus p))]
           @ opt_str ''paymentId'' (p_paymentId p)
           @ [(''checkedIn'', JBool (p_checkedIn p))]
           @ opt_date ''checkedInAt'' (p_checkedInAt p)
           @ [(''_id'', JStr (p_id p))])"

text \<open>\<^verbatim>\<open>populate('organizer.user', 'name avatar profile.institution')\<close>\<close>

definition populate_organizer :: "(oid \<rightharpoonup> user) \<Rightarrow> oid \<Rightarrow> json" where
  "populate_organizer us uid =
     (case us uid of
        None \<Rightarrow> JNull
      | Some u \<Rightarrow> JObj [(''_id'', JStr uid), (''name'', JStr (u_name u)),
                        (''avatar'', JStr (u_avatar u)),
                        (''profile'', JObj (filter (\<lambda>kv. fst kv = ''institution'') (u_profile u)))])"

text \<open>\<^verbatim>\<open>populate('participants.user', 'name email avatar profile')\<close>\<close>

definition populate_participant_user :: "(oid \<rightharpoonup> user) \<Rightarrow> oid \<Rightarrow> json" where
  "populate_participant_user us uid =
     (case us uid of
        None \<Rightarrow> JNull
      | Some u \<Rightarrow> JObj [(''_id'', JStr uid), (''name'', JStr (u_name u)),
                        (''email'', JStr (u_email u)), (''avatar'', JStr (u_avatar u)),
                        (''profile'', JObj (u_profile u))])"

definition registration_json :: "registration \<Rightarrow> json" where
  "registration_json r =
     JObj ([(''deadline'', JDate (deadline r)),
            (''maxParticipants'', (case maxParticipants r of None \<Rightarrow> JNull | Some n \<Rightarrow> JNum n)),
            (''currentParticipants'', JNum (currentParticipants r))]
           @ r_other r)"

text \<open>
  \<^verbatim>\<open>event.toObject()\<close> on a document whose \<^verbatim>\<open>organizer.user\<close> is populated and
  whose \<^verbatim>\<open>participants.user\<close> is not.
\<close>

definition toObject :: "(oid \<rightharpoonup> user) \<Rightarrow> oid \<Rightarrow> event \<Rightarrow> (string \<times> json) list" where
  "toObject us eid e =
     [(''_id'', JStr eid),
      (''title'', JStr (title e)),
      (''organizer'', JObj [(''user'', populate_organizer us (organizer_user e)),
                            (''name'', JStr (organizer_name e))]),
      (''registration'', registration_json (registration e)),
      (''participants'', JArr (map (\<lambda>p. participant_json (JStr (p_user p)) p) (participants e))),
      (''status'', JStr (e_status e)),
      (''views'', JNum (views e))]
     @ e_other e"

section \<open>Role-filtered single-event view (\<^verbatim>\<open>GET /api/events/:id\<close>)\<close>

text \<open>
  \<^verbatim>\<open>req.user && event.organizer.user._id.toString() === req.user.id.toString()\<close>:
  reading \<^verbatim>\<open>_id\<close> of an organizer that populate left \<^verbatim>\<open>null\<close> throws.
\<close>

definition isOrganizer :: "(oid \<rightharpoonup> user) \<Rightarrow> event \<Rightarrow> req_user option \<Rightarrow> error + bool" where
  "isOrganizer us e viewer =
     (case viewer of
        None \<Rightarrow> Inr False
      | Some ru \<Rightarrow>
          (case us (organizer_user e) of
             None \<Rightarrow> Inl TypeError
           | Some u \<Rightarrow> Inr (organizer_user e = ru_id ru)))"

definition isAdmin :: "req_user option \<Rightarrow> bool" where
  "isAdmin viewer = (case viewer of None \<Rightarrow> False | Some ru \<Rightarrow> ru_role ru = ''admin'')"

definition isUserRegistered :: "event \<Rightarrow> req_user option \<Rightarrow> bool" where
  "isUserRegistered e viewer =
     (case viewer of
        None \<Rightarrow> False
      | Some ru \<Rightarrow> list_ex (\<lambda>p. p_user p = ru_id ru) (participants e))"

text \<open>
  The event object \<^verbatim>\<open>eventObj\<close> that the handler puts under \<^verbatim>\<open>data.event\<close>:
  for a viewer who is neither organizer nor admin, \<^verbatim>\<open>participantCount\<close> is set and
  \<^verbatim>\<open>participants\<close> is deleted; otherwise \<^verbatim>\<open>participants\<close> is replaced by the
  populated list.
\<close>

definition present ::
  "(oid \<rightharpoonup> user) \<Rightarrow> oid \<Rightarrow> event \<Rightarrow> req_user option \<Rightarrow> error + (string \<times> json) list" where
  "present us eid e viewer =
     (case isOrganizer us e viewer of
        Inl err \<Rightarrow> Inl err
      | Inr org \<Rightarrow>
          let eventObj = toObject us eid e in
          if \<not> org \<and> \<not> isAdmin viewer
          then Inr (AList.delete ''participants''
                      (AList.update ''participantCount''
                         (JNum (int (length (participants e)))) eventObj))
          else Inr (AList.update ''participants''
                      (JArr (map (\<lambda>p. participant_json (populate_participant_user us (p_user p)) p)
                               (participants e)))
                      eventObj))"

definition get_event_handler :: "db \<Rightarrow> oid \<Rightarrow> req_user option \<Rightarrow> response \<times> db" where
  "get_event_handler s eid viewer =
     (case events s eid of
        None \<Rightarrow> (failure 404 ''Event not found'', s)
      | Some e0 \<Rightarrow>
          let e = e0\<lparr>views := views e0 + 1\<rparr>;
              s' = save_event s eid e
          in (case present (users s') eid e viewer of
                Inl err \<Rightarrow> (failure 500 ''Server error while fetching event'', s')
              | Inr eventObj \<Rightarrow>
                  (\<lparr>code = 200, success = True, message = None,
                    data = Some (JObj [(''event'', JObj eventObj),
                                       (''isUserRegistered'', JBool (isUserRegistered e viewer))])\<rparr>,
                   s')))"

section \<open>Participant status (\<^verbatim>\<open>PUT /api/events/:id/participants/:participantId/status\<close>)\<close>

definition valid_statuses :: "string list" where
  "valid_statuses = [''registered'', ''confirmed'', ''attended'', ''cancelled'']"

text \<open>\<^verbatim>\<open>participant.status = status\<close> on the entry \<^verbatim>\<open>participants.id(pid)\<close> found.\<close>

fun set_status_by_id :: "oid \<Rightarrow> string \<Rightarrow> participant list \<Rightarrow> participant list" where
  "set_status_by_id pid st [] = []"
| "set_status_by_id pid st (p # ps) =
     (if p_id p = pid then p\<lparr>p_status := st\<rparr> # ps
      else p # set_status_by_id pid st ps)"

text \<open>
  \<open>status\<close> is \<^verbatim>\<open>req.body.status\<close>, any JSON value; \<^verbatim>\<open>includes\<close> accepts exactly
  the four strings.
\<close>

definition set_status_handler ::
  "db \<Rightarrow> oid \<Rightarrow> oid \<Rightarrow> req_user \<Rightarrow> json \<Rightarrow> response \<times> db" where
  "set_status_handler s eid pid ru status =
     (case (case status of JStr st \<Rightarrow> if st \<in> set valid_statuses then Some st else None
                         | _ \<Rightarrow> None) of
        None \<Rightarrow>
          (failure 400
             ''Invalid status. Must be one of: registered, confirmed, attended, cancelled'', s)
      | Some st \<Rightarrow>
          (case events s eid of
             None \<Rightarrow> (failure 404 ''Event not found'', s)
           | Some e \<Rightarrow>
               if organizer_user e \<noteq> ru_id ru
               then (failure 403
                       ''Access denied. Only event organizer can update participant status.'', s)
               else
                 (case find (\<lambda>p. p_id p = pid) (participants e) of
                    None \<Rightarrow> (failure 404 ''Participant not found'', s)
                  | Some p \<Rightarrow>
                      let p' = p\<lparr>p_status := st\<rparr>;
                          e' = e\<lparr>participants := set_status_by_id pid st (participants e)\<rparr>;
                          s' = save_event s eid e';
                          s'' = set_registeredEvent_status s' (p_user p) eid st
                      in (\<lparr>code = 200, success = True,
                           message = Some ''Participant status updated successfully'',
                           data = Some (JObj [(''participant'',
                                               participant_json (JStr (p_user p')) p')])\<rparr>,
                          s''))))"

section \<open>Rating a note (\<^verbatim>\<open>POST /api/notes/:id/rate\<close>, routes/notes.js)\<close>

text \<open>
  The tables \<^verbatim>\<open>notes\<close> and \<^verbatim>\<open>note_ratings\<close> of the second store. The stored
  average is a \<^verbatim>\<open>Number\<close>; it is modelled by the rational it denotes, \<open>None\<close> standing
  for \<^verbatim>\<open>NaN\<close> (the quotient \<^verbatim>\<open>0 / 0\<close> of an empty result).
\<close>

record note_rating =
  nr_note_id :: string
  nr_user_id :: string
  nr_rating :: int

record note_row =
  n_is_active :: bool
  n_rating :: "rat option"
  n_rating_count :: nat

record notes_db =
  notes_tbl :: "string \<rightharpoonup> note_row"
  note_ratings :: "note_rating list"

text \<open>
  \<^verbatim>\<open>upsert(row, {onConflict: 'note_id,user_id'})\<close>: the row that conflicts on the
  pair is overwritten, otherwise the new row is inserted.
\<close>

fun upsert_rating :: "note_rating \<Rightarrow> note_rating list \<Rightarrow> note_rating list" where
  "upsert_rating r [] = [r]"
| "upsert_rating r (x # xs) =
     (if nr_note_id x = nr_note_id r \<and> nr_user_id x = nr_user_id r then r # xs
      else x # upsert_rating r xs)"

text \<open>\<^verbatim>\<open>select('rating').eq('note_id', id)\<close>\<close>

definition ratings_of :: "string \<Rightarrow> note_rating list \<Rightarrow> int list" where
  "ratings_of nid tbl = map nr_rating (filter (\<lambda>x. nr_note_id x = nid) tbl)"

text \<open>
  \<^verbatim>\<open>Math.round(avgRating * 10) / 10\<close> with
  \<^verbatim>\<open>avgRating = ratings.reduce((sum, r) => sum + r.rating, 0) / ratings.length\<close>;
  \<^verbatim>\<open>Math.round\<close> rounds a half upwards, as \<^const>\<open>round\<close> does.
\<close>

definition average_rating :: "int list \<Rightarrow> rat option" where
  "average_rating ratings =
     (if ratings = [] then None
      else
        let avgRating = (of_int (sum_list ratings) :: rat) / of_int (int (length ratings))
        in Some (of_int (round (avgRating * 10)) / 10))"

definition rate_handler :: "notes_db \<Rightarrow> string \<Rightarrow> req_user \<Rightarrow> int \<Rightarrow> response \<times> notes_db" where
  "rate_handler s nid ru r =
     (if \<not> (1 \<le> r \<and> r \<le> 5) then (failure 400 ''Validation failed'', s)
      else
        (case notes_tbl s nid of
           None \<Rightarrow> (failure 404 ''Note not found'', s)
         | Some n \<Rightarrow>
             if \<not> n_is_active n then (failure 404 ''Note not found'', s)
             else
               let tbl = upsert_rating
                           \<lparr>nr_note_id = nid, nr_user_id = ru_id ru, nr_rating = r\<rparr>
                           (note_ratings s);
                   ratings = ratings_of nid tbl;
                   n' = n\<lparr>n_rating := average_rating ratings,
                          n_rating_count := length ratings\<rparr>
               in (\<lparr>code = 200, success = True,
                    message = Some ''Rating submitted successfully'', data = None\<rparr>,
                   s\<lparr>notes_tbl := (notes_tbl s)(nid \<mapsto> n'), note_ratings := tbl\<rparr>)))"

section \<open>Sequences of requests\<close>

text \<open>The routes of the registration subsystem, and the store after one request.\<close>

datatype request =
    Register env oid req_user registration_data
  | Unregister oid req_user
  | AdminRegister env oid "string option"
  | SetStatus oid oid req_user json
  | GetEvent oid "req_user option"

fun handle :: "(string \<Rightarrow> oid option) \<Rightarrow> db \<Rightarrow> request \<Rightarrow> db" where
  "handle cast s (Register v eid ru body) = snd (register_handler s v eid ru body)"
| "handle cast s (Unregister eid ru) = snd (unregister_handler s eid ru)"
| "handle cast s (AdminRegister v eid userId) = snd (admin_register_handler cast s v eid userId)"
| "handle cast s (SetStatus eid pid ru status) = snd (set_status_handler s eid pid ru status)"
| "handle cast s (GetEvent eid viewer) = snd (get_event_handler s eid viewer)"

text \<open>
  An admin registration names its user canonically when the cast leaves the string as it
  is (or rejects it).
\<close>

fun canonical_userId :: "(string \<Rightarrow> oid option) \<Rightarrow> request \<Rightarrow> bool" where
  "canonical_userId cast (AdminRegister v eid (Some raw)) =
     (case cast raw of None \<Rightarrow> True | Some uid \<Rightarrow> uid = raw)"
| "canonical_userId cast q = True"

section \<open>Vocabulary of the properties\<close>

text \<open>The counter agrees with the list: \<^verbatim>\<open>currentParticipants\<close> is the number of entries.\<close>

definition counter_matches :: "event \<Rightarrow> bool" where
  "counter_matches e = (currentParticipants (registration e) = int (length (participants e)))"

text \<open>
  The counter agrees with the list and no user has two entries. \<^verbatim>\<open>unregisterUser\<close>
  removes every entry of the user and subtracts 1, so it keeps the first only together
  with the second.
\<close>

definition event_consistent :: "event \<Rightarrow> bool" where
  "event_consistent e = (counter_matches e \<and> distinct (map p_user (participants e)))"

definition store_consistent :: "db \<Rightarrow> bool" where
  "store_consistent s = (\<forall>eid e. events s eid = Some e \<longrightarrow> event_consistent e)"

section \<open>Concrete documents used in the examples\<close>

text \<open>
  An event with deadline \<open>d\<close> and participants \<open>ps\<close>, whose maximum of 1 participant
  plays no role; a participant as \<^verbatim>\<open>registerUser\<close> creates it; users; a store with one
  event; the readings of one request.
\<close>

definition sample_event :: "date \<Rightarrow> participant list \<Rightarrow> event" where
  "sample_event d ps =
     \<lparr>title = ''Hack Night'', organizer_user = ''org1'', organizer_name = ''Organizer'',
      registration = \<lparr>deadline = d, maxParticipants = Some 1,
                      currentParticipants = int (length ps), r_other = []\<rparr>,
      participants = ps, e_status = ''published'', views = 0, e_other = []\<rparr>"

definition sample_participant :: "oid \<Rightarrow> oid \<Rightarrow> participant" where
  "sample_participant pid uid = new_participant pid 10 uid empty_registration_data"

definition sample_user :: "string \<Rightarrow> user" where
  "sample_user n =
     \<lparr>u_name = n, u_email = n @ ''@example.org'', u_role = ''student'', u_avatar = ''A'',
      u_profile = [(''institution'', JStr ''IIT''), (''city'', JStr ''Pune'')],
      registeredEvents = []\<rparr>"

definition sample_users :: "oid \<rightharpoonup> user" where
  "sample_users = [''u1'' \<mapsto> sample_user ''asha'', ''org1'' \<mapsto> sample_user ''orga'']"

definition sample_db :: "event \<Rightarrow> db" where
  "sample_db e =
     \<lparr>events = [''ev1'' \<mapsto> e],
      users = [''u1'' \<mapsto> sample_user ''asha'', ''u2'' \<mapsto> sample_user ''ravi'',
               ''org1'' \<mapsto> sample_user ''orga'']\<rparr>"

definition sample_env :: "date \<Rightarrow> env" where
  "sample_env t = \<lparr>t_check = t, t_push = t + 1, t_mirror = t + 2, new_pid = ''p9''\<rparr>"

text \<open>
  For the admin registration: a cast that accepts the strings of 24 hexadecimal digits and
  reads them without regard to case, two users under ids of that form, the first id in
  upper case, and a store with these users and one event.
\<close>

definition hex_digit :: "char \<Rightarrow> bool" where
  "hex_digit c = (c \<in> set ''0123456789abcdefABCDEF'')"

definition lower_hex :: "char \<Rightarrow> char" where
  "lower_hex c =
     (if c = CHR ''A'' then CHR ''a'' else if c = CHR ''B'' then CHR ''b''
      else if c = CHR ''C'' then CHR ''c'' else if c = CHR ''D'' then CHR ''d''
      else if c = CHR ''E'' then CHR ''e'' else if c = CHR ''F'' then CHR ''f'' else c)"

definition hex24_cast :: "string \<Rightarrow> oid option" where
  "hex24_cast raw =
     (if length raw = 24 \<and> list_all hex_digit raw then Some (map lower_hex raw) else None)"

definition meera_id :: oid where
  "meera_id = ''64b7f0c2a1d3e4f5a6b7c8d9''"

definition meera_id_upper :: string where
  "meera_id_upper = ''64B7F0C2A1D3E4F5A6B7C8D9''"

definition ravi_id :: oid where
  "ravi_id = ''64b7f0c2a1d3e4f5a6b7c8da''"

definition hex_db :: "event \<Rightarrow> db" where
  "hex_db e =
     \<lparr>events = [''ev1'' \<mapsto> e],
      users = [meera_id \<mapsto> sample_user ''meera'', ravi_id \<mapsto> sample_user ''ravi'']\<rparr>"

text \<open>
  Two active notes, the second with one rating of 2, and the store after three users
  have rated the first.
\<close>

definition sample_notes_db :: notes_db where
  "sample_notes_db =
     \<lparr>notes_tbl = [''n1'' \<mapsto> \<lparr>n_is_active = True, n_rating = Some 0, n_rating_count = 0\<rparr>,
                   ''n2'' \<mapsto> \<lparr>n_is_active = True, n_rating = Some 2, n_rating_count = 1\<rparr>],
      note_ratings = [\<lparr>nr_note_id = ''n2'', nr_user_id = ''a'', nr_rating = 2\<rparr>]\<rparr>"

definition rater :: "string \<Rightarrow> req_user" where
  "rater uid = \<lparr>ru_id = uid, ru_role = ''student''\<rparr>"

definition rated3 :: notes_db where
  "rated3 =
     snd (rate_handler
            (snd (rate_handler
                    (snd (rate_handler sample_notes_db ''n1'' (rater ''a'') 5))
                    ''n1'' (rater ''b'') 3))
            ''n1'' (rater ''c'') 4)"

section \<open>The admission check\<close>

text \<open>
  C1 (as amended). \<^verbatim>\<open>canUserRegister\<close> allows a registration only when the current time
  is at or before the deadline. Whenever the current time is strictly after the deadline,
  and so at one second (1000 ms) after it, the answer is not allowed with the reason
  "Registration deadline has passed", whatever the capacity fields hold and whether or not
  the user is already among the participants: the deadline rule is tested first.
\<close>

theorem deadline_rule:
  "(canRegister (canUserRegister e now userId) \<longrightarrow> now \<le> deadline (registration e)) \<and>
   (deadline (registration e) < now \<longrightarrow>
      canUserRegister e now userId =
        \<lparr>canRegister = False, reason = Some ''Registration deadline has passed''\<rparr>) \<and>
   canUserRegister e (deadline (registration e) + 1000) userId =
     \<lparr>canRegister = False, reason = Some ''Registration deadline has passed''\<rparr>"
  by (simp add: canUserRegister_def)

theorem deadline_rule_witness:
  "canRegister (canUserRegister (sample_event 5000 []) 5000 ''u1'') \<and>
   (5000::int) \<le> deadline (registration (sample_event 5000 [])) \<and>
   deadline (registration (sample_event 5000 [sample_participant ''p1'' ''u1''])) < 5001 \<and>
   canUserRegister (sample_event 5000 [sample_participant ''p1'' ''u1'']) 5001 ''u1'' =
      \<lparr>canRegister = False, reason = Some ''Registration deadline has passed''\<rparr>"
  using deadline_rule [of "sample_event 5000 []" 5000 "''u1''"]
    deadline_rule [of "sample_event 5000 [sample_participant ''p1'' ''u1'']" 5001 "''u1''"]
  by (simp add: sample_event_def canUserRegister_def)

text \<open>
  At the very instant of the deadline the current time is not strictly before it, and the
  check still allows the registration: the source tests \<^verbatim>\<open>now > deadline\<close>.
\<close>

theorem deadline_instant_still_open:
  "\<not> (5000 < deadline (registration (sample_event 5000 []))) \<and>
   canUserRegister (sample_event 5000 []) 5000 ''u1'' = \<lparr>canRegister = True, reason = None\<rparr>"
  by (simp add: sample_event_def canUserRegister_def)

text \<open>
  C9. If the user is not among the participants and the current time is before the
  deadline, \<^verbatim>\<open>canUserRegister\<close> allows the registration, whatever
  \<^verbatim>\<open>maxParticipants\<close> and \<^verbatim>\<open>currentParticipants\<close> hold (the witness has 7
  counted participants against a maximum of 1). The check has no capacity refusal: a
  refusal carries the deadline reason or the already-registered reason, nothing else.
\<close>

theorem no_capacity_rule:
  "(\<not> list_ex (\<lambda>p. p_user p = userId) (participants e) \<and> now < deadline (registration e) \<longrightarrow>
      canUserRegister e now userId = \<lparr>canRegister = True, reason = None\<rparr> \<and>
      canUserRegister
        (e\<lparr>registration := (registration e)\<lparr>maxParticipants := m, currentParticipants := c\<rparr>\<rparr>)
        now userId = \<lparr>canRegister = True, reason = None\<rparr>) \<and>
   (canRegister (canUserRegister e now userId) \<and> reason (canUserRegister e now userId) = None
    \<or> \<not> canRegister (canUserRegister e now userId) \<and>
       reason (canUserRegister e now userId) = Some ''Registration deadline has passed''
    \<or> \<not> canRegister (canUserRegister e now userId) \<and>
       reason (canUserRegister e now userId) = Some ''Already registered'')"
  by (simp add: canUserRegister_def)

theorem no_capacity_rule_witness:
  "\<not> list_ex (\<lambda>p. p_user p = ''u2'') (participants (sample_event 5000 [sample_participant ''p1'' ''u1''])) \<and>
   4000 < deadline (registration (sample_event 5000 [sample_participant ''p1'' ''u1''])) \<and>
   canUserRegister
     ((sample_event 5000 [sample_participant ''p1'' ''u1''])
        \<lparr>registration := (registration (sample_event 5000 [sample_participant ''p1'' ''u1'']))
           \<lparr>maxParticipants := Some 1, currentParticipants := 7\<rparr>\<rparr>)
     4000 ''u2'' = \<lparr>canRegister = True, reason = None\<rparr>"
  using no_capacity_rule [where userId = "''u2''" and now = 4000 and m = "Some 1" and c = 7
      and e = "sample_event 5000 [sample_participant ''p1'' ''u1'']"]
  by (simp add: sample_event_def sample_participant_def new_participant_def)

section \<open>Registering\<close>

lemma registerUser_Inr:
  "registerUser e pid now userId rd = Inr e' \<longleftrightarrow>
     list_all member_name_present (case rd_teamMembers rd of None \<Rightarrow> [] | Some ms \<Rightarrow> ms) \<and>
     e' = e\<lparr>participants := participants e @ [new_participant pid now userId rd],
            registration := (registration e)
              \<lparr>currentParticipants := currentParticipants (registration e) + 1\<rparr>\<rparr>"
  by (auto simp: registerUser_def Let_def new_participant_def)


lemma registerUser_empty:
  "registerUser e pid now userId empty_registration_data =
     Inr (e\<lparr>participants := participants e @ [new_participant pid now userId empty_registration_data],
            registration := (registration e)
              \<lparr>currentParticipants := currentParticipants (registration e) + 1\<rparr>\<rparr>)"
  by (simp add: registerUser_def Let_def new_participant_def empty_registration_data_def)




section \<open>Facts about the store operations\<close>

lemma events_push_registeredEvent [simp]: "events (push_registeredEvent s uid r) = events s"
  by (simp add: push_registeredEvent_def split: option.splits)

lemma events_pull_registeredEvent [simp]: "events (pull_registeredEvent s uid eid) = events s"
  by (simp add: pull_registeredEvent_def split: option.splits)

lemma events_set_registeredEvent_status [simp]:
  "events (set_registeredEvent_status s uid eid st) = events s"
  by (simp add: set_registeredEvent_status_def split: option.splits)

lemma events_save_event [simp]: "events (save_event s eid e) = (events s)(eid \<mapsto> e)"
  by (simp add: save_event_def)

lemma users_save_event [simp]: "users (save_event s eid e) = users s"
  by (simp add: save_event_def)

lemma users_push_registeredEvent:
  "users s uid = Some u \<Longrightarrow>
   users (push_registeredEvent s uid r) uid = Some (u\<lparr>registeredEvents := registeredEvents u @ [r]\<rparr>)"
  by (simp add: push_registeredEvent_def)

lemma length_set_status_by_id [simp]: "length (set_status_by_id pid st ps) = length ps"
  by (induction ps) simp_all

lemma length_filter_other:
  "length (filter (\<lambda>p. p_user p \<noteq> u) ps) = length ps - length (filter (\<lambda>p. p_user p = u) ps)"
  using sum_length_filter_compl [of "\<lambda>p. p_user p = u" ps] by simp

lemma set_status_handler_event:
  assumes "events s eid = Some e"
  shows "\<exists>e'. events (snd (set_status_handler s eid pid ru st)) eid = Some e' \<and>
           length (participants e') = length (participants e) \<and>
           registration e' = registration e"
  using assms
  by (auto simp: set_status_handler_def failure_def Let_def split: json.splits option.splits)

lemma set_status_by_id_update:
  "i < length ps \<Longrightarrow> p_id (ps ! i) = pid \<Longrightarrow> \<forall>j<i. p_id (ps ! j) \<noteq> pid \<Longrightarrow>
   set_status_by_id pid st ps = ps[i := (ps ! i)\<lparr>p_status := st\<rparr>]"
proof (induction ps arbitrary: i)
  case Nil
  then show ?case by simp
next
  case (Cons p ps)
  show ?case
  proof (cases i)
    case 0
    with Cons.prems show ?thesis by simp
  next
    case (Suc k)
    with Cons.prems have "p_id p \<noteq> pid" by auto
    moreover from Suc Cons.prems have "k < length ps" "p_id (ps ! k) = pid"
      "\<forall>j<k. p_id (ps ! j) \<noteq> pid" by auto
    ultimately show ?thesis using Cons.IH [of k] Suc by simp
  qed
qed

lemma valid_status_cases:
  "status \<notin> JStr ` set valid_statuses \<Longrightarrow>
   (case status of JStr st \<Rightarrow> if st \<in> set valid_statuses then Some st else None | _ \<Rightarrow> None) = None"
  by (cases status) auto

lemma register_handler_outcome:
  assumes "events s eid = Some e" and "canRegister (canUserRegister e (t_check v) (ru_id ru))"
  shows "(registerUser e (new_pid v) (t_push v) (ru_id ru) body = Inl err \<longrightarrow>
            register_handler s v eid ru body =
              (failure 500 ''Server error while registering for event'', s)) \<and>
         (registerUser e (new_pid v) (t_push v) (ru_id ru) body = Inr e' \<longrightarrow>
            code (fst (register_handler s v eid ru body)) = 200 \<and>
            events (snd (register_handler s v eid ru body)) eid = Some e')"
  using assms by (simp add: register_handler_def Let_def)

section \<open>Facts about the sample ids\<close>

lemma hex24_cast_ravi: "hex24_cast ravi_id = Some ravi_id"
  by (simp add: hex24_cast_def ravi_id_def hex_digit_def lower_hex_def)

lemma hex24_cast_meera: "hex24_cast meera_id = Some meera_id"
  by (simp add: hex24_cast_def meera_id_def hex_digit_def lower_hex_def)

lemma hex24_cast_meera_upper: "hex24_cast meera_id_upper = Some meera_id"
  by (simp add: hex24_cast_def meera_id_def meera_id_upper_def hex_digit_def lower_hex_def)

lemma meera_upper_differs: "meera_id_upper \<noteq> meera_id"
  by (simp add: meera_id_def meera_id_upper_def)

lemma ravi_not_meera: "ravi_id \<noteq> meera_id" "meera_id \<noteq> ravi_id"
  by (simp_all add: meera_id_def ravi_id_def)

lemma ids_nonempty: "meera_id \<noteq> []" "ravi_id \<noteq> []" "meera_id_upper \<noteq> []"
  by (simp_all add: meera_id_def ravi_id_def meera_id_upper_def)

section \<open>The counter and the list\<close>

lemma store_consistent_save:
  "store_consistent s \<Longrightarrow> event_consistent e \<Longrightarrow> events s' = (events s)(eid \<mapsto> e) \<Longrightarrow>
   store_consistent s'"
  by (simp add: store_consistent_def)

lemma registerUser_consistent:
  "event_consistent e \<Longrightarrow> \<not> list_ex (\<lambda>p. p_user p = uid) (participants e) \<Longrightarrow>
   registerUser e pid now uid rd = Inr e' \<Longrightarrow> event_consistent e'"
  by (auto simp: event_consistent_def counter_matches_def registerUser_Inr new_participant_def
      list_ex_iff)

lemma distinct_filter_one:
  "distinct (map f xs) \<Longrightarrow> u \<in> f ` set xs \<Longrightarrow> length (filter (\<lambda>p. f p = u) xs) = 1"
proof (induction xs)
  case Nil
  then show ?case by simp
next
  case (Cons a xs)
  show ?case
  proof (cases "f a = u")
    case True
    with Cons.prems have "u \<notin> f ` set xs" by simp
    then have "\<forall>p\<in>set xs. f p \<noteq> u" by blast
    then have "filter (\<lambda>p. f p = u) xs = []" by (simp add: filter_empty_conv)
    with True show ?thesis by simp
  next
    case False
    with Cons show ?thesis by auto
  qed
qed

lemma unregisterUser_consistent:
  assumes "event_consistent e" and "list_ex (\<lambda>p. p_user p = uid) (participants e)"
  shows "event_consistent (unregisterUser e uid)"
proof -
  from assms have d: "distinct (map p_user (participants e))"
    and c: "counter_matches e" by (simp_all add: event_consistent_def)
  from assms(2) have "uid \<in> p_user ` set (participants e)"
    by (auto simp: list_ex_iff)
  with d have one: "length (filter (\<lambda>p. p_user p = uid) (participants e)) = 1"
    by (rule distinct_filter_one)
  have le: "length (filter (\<lambda>p. p_user p = uid) (participants e)) \<le> length (participants e)"
    by (rule length_filter_le)
  from c one le have "counter_matches (unregisterUser e uid)"
    by (simp add: counter_matches_def unregisterUser_def length_filter_other)
  moreover from d have "distinct (map p_user (participants (unregisterUser e uid)))"
    by (simp add: unregisterUser_def distinct_map_filter)
  ultimately show ?thesis by (simp add: event_consistent_def)
qed

lemma map_p_user_set_status_by_id [simp]:
  "map p_user (set_status_by_id pid st ps) = map p_user ps"
  by (induction ps) simp_all

lemma register_handler_consistent:
  assumes inv: "store_consistent s"
  shows "store_consistent (snd (register_handler s v eid ru body))"
proof (cases "events s eid")
  case None
  with inv show ?thesis by (simp add: register_handler_def)
next
  case (Some e)
  with inv have e: "event_consistent e" by (simp add: store_consistent_def)
  show ?thesis
  proof (cases "canRegister (canUserRegister e (t_check v) (ru_id ru))")
    case False
    with Some inv show ?thesis by (simp add: register_handler_def Let_def)
  next
    case True
    then have fresh: "\<not> list_ex (\<lambda>p. p_user p = ru_id ru) (participants e)"
      by (auto simp: canUserRegister_def split: if_splits)
    show ?thesis
    proof (cases "registerUser e (new_pid v) (t_push v) (ru_id ru) body")
      case (Inl err)
      with Some True inv show ?thesis by (simp add: register_handler_def Let_def)
    next
      case (Inr e')
      from registerUser_consistent [OF e fresh Inr] have "event_consistent e'" .
      from store_consistent_save [OF inv this] Some True Inr show ?thesis
        by (simp add: register_handler_def Let_def)
    qed
  qed
qed

lemma unregister_handler_consistent:
  assumes inv: "store_consistent s"
  shows "store_consistent (snd (unregister_handler s eid ru))"
proof (cases "events s eid")
  case None
  with inv show ?thesis by (simp add: unregister_handler_def)
next
  case (Some e)
  with inv have e: "event_consistent e" by (simp add: store_consistent_def)
  show ?thesis
  proof (cases "list_ex (\<lambda>p. p_user p = ru_id ru) (participants e)")
    case False
    with Some inv show ?thesis by (simp add: unregister_handler_def)
  next
    case True
    from store_consistent_save [OF inv unregisterUser_consistent [OF e True]] Some True
    show ?thesis by (simp add: unregister_handler_def Let_def)
  qed
qed

lemma admin_register_handler_consistent:
  assumes inv: "store_consistent s"
    and canon: "case userId of None \<Rightarrow> True
                | Some raw \<Rightarrow> (case cast raw of None \<Rightarrow> True | Some uid \<Rightarrow> uid = raw)"
  shows "store_consistent (snd (admin_register_handler cast s v eid userId))"
proof (cases "\<exists>raw e u e'. userId = Some raw \<and> raw \<noteq> [] \<and> events s eid = Some e \<and>
      cast raw = Some raw \<and> users s raw = Some u \<and>
      \<not> list_ex (\<lambda>p. p_user p = raw) (participants e) \<and>
      registerUser e (new_pid v) (t_push v) raw empty_registration_data = Inr e'")
  case False
  with canon have "snd (admin_register_handler cast s v eid userId) = s"
    by (auto simp: admin_register_handler_def split: option.splits sum.splits)
  with inv show ?thesis by simp
next
  case True
  then obtain raw e u e' where h: "userId = Some raw" "raw \<noteq> []" "events s eid = Some e"
    "cast raw = Some raw" "users s raw = Some u"
    "\<not> list_ex (\<lambda>p. p_user p = raw) (participants e)"
    "registerUser e (new_pid v) (t_push v) raw empty_registration_data = Inr e'" by blast
  from inv h(3) have e: "event_consistent e" by (simp add: store_consistent_def)
  from registerUser_consistent [OF e h(6) h(7)] have "event_consistent e'" .
  from store_consistent_save [OF inv this] h show ?thesis
    by (simp add: admin_register_handler_def Let_def)
qed

lemma set_status_handler_consistent:
  assumes inv: "store_consistent s"
  shows "store_consistent (snd (set_status_handler s eid pid ru status))"
proof (cases "snd (set_status_handler s eid pid ru status) = s")
  case True
  with inv show ?thesis by simp
next
  case False
  then obtain st e where h: "events s eid = Some e"
    "events (snd (set_status_handler s eid pid ru status)) =
       (events s)(eid \<mapsto> e\<lparr>participants := set_status_by_id pid st (participants e)\<rparr>)"
    by (auto simp: set_status_handler_def Let_def failure_def
        split: json.splits option.splits if_splits)
  from inv h(1) have "event_consistent e" by (simp add: store_consistent_def)
  then have "event_consistent (e\<lparr>participants := set_status_by_id pid st (participants e)\<rparr>)"
    by (simp add: event_consistent_def counter_matches_def)
  from store_consistent_save [OF inv this h(2)] show ?thesis .
qed

lemma get_event_handler_consistent:
  assumes inv: "store_consistent s"
  shows "store_consistent (snd (get_event_handler s eid viewer))"
proof (cases "events s eid")
  case None
  with inv show ?thesis by (simp add: get_event_handler_def)
next
  case (Some e)
  with inv have "event_consistent e" by (simp add: store_consistent_def)
  then have e': "event_consistent (e\<lparr>views := views e + 1\<rparr>)"
    by (simp add: event_consistent_def counter_matches_def)
  have "events (snd (get_event_handler s eid viewer)) = (events s)(eid \<mapsto> e\<lparr>views := views e + 1\<rparr>)"
    using Some by (simp add: get_event_handler_def Let_def split: sum.splits)
  from store_consistent_save [OF inv e' this] show ?thesis .
qed

lemma handle_consistent:
  "store_consistent s \<Longrightarrow> canonical_userId cast q \<Longrightarrow> store_consistent (handle cast s q)"
proof (cases q)
  case (AdminRegister v eid userId)
  assume "store_consistent s" and "canonical_userId cast q"
  with AdminRegister show ?thesis
    by (cases userId) (simp_all add: admin_register_handler_consistent)
qed (simp_all add: register_handler_consistent unregister_handler_consistent
      set_status_handler_consistent get_event_handler_consistent)

lemma requests_keep_consistent:
  "store_consistent s \<Longrightarrow> list_all (canonical_userId cast) qs \<Longrightarrow>
   store_consistent (foldl (handle cast) s qs)"
  by (induction qs arbitrary: s) (simp_all add: handle_consistent)

text \<open>
  C2 (as amended). From an event whose \<^verbatim>\<open>currentParticipants\<close> equals the number of
  participant entries: a successful \<^verbatim>\<open>registerUser\<close> adds one entry and adds 1 to the
  counter; \<^verbatim>\<open>unregisterUser\<close>, for a user who appears exactly once, removes that entry
  and subtracts 1; the status handler changes neither the length of the list nor the
  counter; each time the two are equal again. Over sequences of requests the equality is
  kept together with "no user has two entries in an event": from a store in which every
  event has both, every sequence of register, unregister, status, view and admin
  registration requests, the latter naming their user by the canonical id, leads to a
  store in which every event has both.
\<close>

theorem counter_preserved:
  "(currentParticipants (registration e) = int (length (participants e)) \<longrightarrow>
      (registerUser e pid now userId rd = Inr e1 \<longrightarrow>
         length (participants e1) = length (participants e) + 1 \<and>
         currentParticipants (registration e1) = currentParticipants (registration e) + 1 \<and>
         currentParticipants (registration e1) = int (length (participants e1))) \<and>
      (length (filter (\<lambda>p. p_user p = userId) (participants e)) = 1 \<longrightarrow>
         length (participants (unregisterUser e userId)) + 1 = length (participants e) \<and>
         \<not> list_ex (\<lambda>p. p_user p = userId) (participants (unregisterUser e userId)) \<and>
         currentParticipants (registration (unregisterUser e userId)) =
           currentParticipants (registration e) - 1 \<and>
         currentParticipants (registration (unregisterUser e userId)) =
           int (length (participants (unregisterUser e userId)))) \<and>
      (events s eid = Some e \<longrightarrow>
         (\<exists>e'. events (snd (set_status_handler s eid participantId ru status)) eid = Some e' \<and>
               length (participants e') = length (participants e) \<and>
               currentParticipants (registration e') = currentParticipants (registration e) \<and>
               currentParticipants (registration e') = int (length (participants e'))))) \<and>
   ((\<forall>i d. events s0 i = Some d \<longrightarrow>
        currentParticipants (registration d) = int (length (participants d)) \<and>
        distinct (map p_user (participants d))) \<and>
    list_all (canonical_userId cast) qs \<longrightarrow>
    (\<forall>i d. events (foldl (handle cast) s0 qs) i = Some d \<longrightarrow>
        currentParticipants (registration d) = int (length (participants d)) \<and>
        distinct (map p_user (participants d))))"
proof (intro conjI impI)
  assume c: "currentParticipants (registration e) = int (length (participants e))"
    and r: "registerUser e pid now userId rd = Inr e1"
  from r have e1: "e1 = e\<lparr>participants := participants e @ [new_participant pid now userId rd],
            registration := (registration e)
              \<lparr>currentParticipants := currentParticipants (registration e) + 1\<rparr>\<rparr>"
    by (simp add: registerUser_Inr)
  show "length (participants e1) = length (participants e) + 1" by (simp add: e1)
  show "currentParticipants (registration e1) = currentParticipants (registration e) + 1"
    by (simp add: e1)
  show "currentParticipants (registration e1) = int (length (participants e1))"
    using c by (simp add: e1)
next
  assume c: "currentParticipants (registration e) = int (length (participants e))"
    and once: "length (filter (\<lambda>p. p_user p = userId) (participants e)) = 1"
  have le: "length (filter (\<lambda>p. p_user p = userId) (participants e)) \<le> length (participants e)"
    by (rule length_filter_le)
  show len: "length (participants (unregisterUser e userId)) + 1 = length (participants e)"
    using once le by (simp add: unregisterUser_def length_filter_other)
  show "\<not> list_ex (\<lambda>p. p_user p = userId) (participants (unregisterUser e userId))"
    by (simp add: unregisterUser_def list_ex_iff)
  show cnt: "currentParticipants (registration (unregisterUser e userId)) =
        currentParticipants (registration e) - 1"
    using c once le by (simp add: unregisterUser_def)
  show "currentParticipants (registration (unregisterUser e userId)) =
           int (length (participants (unregisterUser e userId)))"
    using c len cnt by simp
next
  assume c: "currentParticipants (registration e) = int (length (participants e))"
    and "events s eid = Some e"
  from set_status_handler_event [OF this(2), of participantId ru status]
  obtain e' where e': "events (snd (set_status_handler s eid participantId ru status)) eid = Some e'"
      "length (participants e') = length (participants e)" "registration e' = registration e"
    by blast
  then show "\<exists>e'. events (snd (set_status_handler s eid participantId ru status)) eid = Some e' \<and>
               length (participants e') = length (participants e) \<and>
               currentParticipants (registration e') = currentParticipants (registration e) \<and>
               currentParticipants (registration e') = int (length (participants e'))"
    using c by auto
next
  assume h: "(\<forall>i d. events s0 i = Some d \<longrightarrow>
        currentParticipants (registration d) = int (length (participants d)) \<and>
        distinct (map p_user (participants d))) \<and>
    list_all (canonical_userId cast) qs"
  then have "store_consistent s0"
    by (simp add: store_consistent_def event_consistent_def counter_matches_def)
  with h have "store_consistent (foldl (handle cast) s0 qs)"
    by (simp add: requests_keep_consistent)
  then show "\<forall>i d. events (foldl (handle cast) s0 qs) i = Some d \<longrightarrow>
        currentParticipants (registration d) = int (length (participants d)) \<and>
        distinct (map p_user (participants d))"
    by (simp add: store_consistent_def event_consistent_def counter_matches_def)
qed

theorem counter_preserved_witness:
  "currentParticipants (registration (sample_event 5000 [sample_participant ''p1'' meera_id])) =
     int (length (participants (sample_event 5000 [sample_participant ''p1'' meera_id]))) \<and>
   (\<exists>e1. registerUser (sample_event 5000 [sample_participant ''p1'' meera_id]) ''p2'' 4000 ''u2''
            empty_registration_data = Inr e1 \<and>
         length (participants e1) = 2 \<and> currentParticipants (registration e1) = 2) \<and>
   length (filter (\<lambda>p. p_user p = meera_id)
             (participants (sample_event 5000 [sample_participant ''p1'' meera_id]))) = 1 \<and>
   participants (unregisterUser (sample_event 5000 [sample_participant ''p1'' meera_id]) meera_id) = [] \<and>
   currentParticipants (registration
       (unregisterUser (sample_event 5000 [sample_participant ''p1'' meera_id]) meera_id)) = 0 \<and>
   events (hex_db (sample_event 5000 [sample_participant ''p1'' meera_id])) ''ev1'' =
     Some (sample_event 5000 [sample_participant ''p1'' meera_id]) \<and>
   (\<exists>e'. events (snd (set_status_handler
                        (hex_db (sample_event 5000 [sample_participant ''p1'' meera_id]))
                        ''ev1'' ''p1'' \<lparr>ru_id = ''org1'', ru_role = ''institution''\<rparr>
                        (JStr ''attended''))) ''ev1'' = Some e' \<and>
         length (participants e') = 1 \<and> currentParticipants (registration e') = 1) \<and>
   list_all (canonical_userId hex24_cast)
     [AdminRegister (sample_env 9000) ''ev1'' (Some ravi_id),
      Unregister ''ev1'' \<lparr>ru_id = meera_id, ru_role = ''student''\<rparr>] \<and>
   (\<exists>d. events (foldl (handle hex24_cast)
                  (hex_db (sample_event 5000 [sample_participant ''p1'' meera_id]))
                  [AdminRegister (sample_env 9000) ''ev1'' (Some ravi_id),
                   Unregister ''ev1'' \<lparr>ru_id = meera_id, ru_role = ''student''\<rparr>]) ''ev1'' = Some d \<and>
        map p_user (participants d) = [ravi_id] \<and>
        currentParticipants (registration d) = int (length (participants d)) \<and>
        distinct (map p_user (participants d)))"
proof -
  let ?e = "sample_event 5000 [sample_participant ''p1'' meera_id]"
  let ?s = "hex_db ?e"
  let ?qs = "[AdminRegister (sample_env 9000) ''ev1'' (Some ravi_id),
      Unregister ''ev1'' \<lparr>ru_id = meera_id, ru_role = ''student''\<rparr>]"
  let ?ru = "\<lparr>ru_id = ''org1'', ru_role = ''institution''\<rparr>"
  have ps: "participants ?e = [sample_participant ''p1'' meera_id]"
    and cnt: "currentParticipants (registration ?e) = 1"
    by (simp_all add: sample_event_def)
  have pu: "p_user (sample_participant ''p1'' meera_id) = meera_id"
    by (simp add: sample_participant_def new_participant_def)
  have a: "currentParticipants (registration ?e) = int (length (participants ?e))"
    by (simp add: ps cnt)
  obtain e1 where e1: "registerUser ?e ''p2'' 4000 ''u2'' empty_registration_data = Inr e1"
    by (simp add: registerUser_empty)
  have b: "length (filter (\<lambda>p. p_user p = meera_id) (participants ?e)) = 1"
    by (simp add: ps pu)
  have c: "events ?s ''ev1'' = Some ?e" by (simp add: hex_db_def)
  have inv: "\<forall>i d. events ?s i = Some d \<longrightarrow>
        currentParticipants (registration d) = int (length (participants d)) \<and>
        distinct (map p_user (participants d))"
    by (auto simp: hex_db_def ps cnt split: if_splits)
  have canon: "list_all (canonical_userId hex24_cast) ?qs"
    by (simp add: hex24_cast_ravi)
  have fin: "\<exists>d. events (foldl (handle hex24_cast) ?s ?qs) ''ev1'' = Some d \<and>
      map p_user (participants d) = [ravi_id]"
    by (simp add: unregister_handler_def hex_db_def sample_event_def
      sample_participant_def new_participant_def unregisterUser_def Let_def
      admin_register_handler_def hex24_cast_ravi ravi_not_meera
      registerUser_empty ids_nonempty save_event_def
      push_registeredEvent_def pull_registeredEvent_def)
  note t = counter_preserved [where e = ?e and pid = "''p2''" and now = 4000 and userId = "''u2''"
      and rd = empty_registration_data and ?e1.0 = e1]
  note t' = counter_preserved [where e = ?e and userId = meera_id and s = ?s and eid = "''ev1''"
      and participantId = "''p1''" and ru = ?ru and status = "JStr ''attended''"
      and ?s0.0 = ?s and cast = hex24_cast and qs = ?qs]
  from t a e1 have r1: "length (participants e1) = 2" "currentParticipants (registration e1) = 2"
    by (simp_all add: ps cnt)
  from t' a b have r2: "length (participants (unregisterUser ?e meera_id)) + 1 = length (participants ?e)"
    "currentParticipants (registration (unregisterUser ?e meera_id)) =
       currentParticipants (registration ?e) - 1"
    by blast+
  from r2 have r2': "participants (unregisterUser ?e meera_id) = []"
    "currentParticipants (registration (unregisterUser ?e meera_id)) = 0"
    by (simp_all add: ps cnt)
  from t' a c have "\<exists>e'. events (snd (set_status_handler ?s ''ev1'' ''p1'' ?ru (JStr ''attended''))) ''ev1''
        = Some e' \<and> length (participants e') = length (participants ?e) \<and>
        currentParticipants (registration e') = currentParticipants (registration ?e)"
    by blast
  then have r3: "\<exists>e'. events (snd (set_status_handler ?s ''ev1'' ''p1'' ?ru (JStr ''attended''))) ''ev1''
        = Some e' \<and> length (participants e') = 1 \<and> currentParticipants (registration e') = 1"
    by (simp add: ps cnt)
  from t' inv canon have all: "\<forall>i d. events (foldl (handle hex24_cast) ?s ?qs) i = Some d \<longrightarrow>
        currentParticipants (registration d) = int (length (participants d)) \<and>
        distinct (map p_user (participants d))"
    by blast
  from fin obtain d where d: "events (foldl (handle hex24_cast) ?s ?qs) ''ev1'' = Some d"
    "map p_user (participants d) = [ravi_id]" by auto
  with all have "currentParticipants (registration d) = int (length (participants d))"
    "distinct (map p_user (participants d))" by blast+
  with d have r4: "\<exists>d. events (foldl (handle hex24_cast) ?s ?qs) ''ev1'' = Some d \<and>
        map p_user (participants d) = [ravi_id] \<and>
        currentParticipants (registration d) = int (length (participants d)) \<and>
        distinct (map p_user (participants d))" by (intro exI [of _ d]) simp
  from e1 r1 have r1': "\<exists>e1. registerUser ?e ''p2'' 4000 ''u2'' empty_registration_data = Inr e1 \<and>
         length (participants e1) = 2 \<and> currentParticipants (registration e1) = 2" by blast
  show ?thesis
    by (intro conjI) (rule a r1' b r2' c r3 canon r4)+
qed

text \<open>
  The equality alone is not kept. The unregister handler requires only that the user
  appears: with two entries of one user and the counter at 2, one unregister request
  leaves no entry and the counter at 1. Such a state arises from a store with one entry
  per user when an admin registration names a registered user by the upper-case spelling
  of the id; the unregister request that follows leaves no entry and the counter at 1.
\<close>

theorem counter_lost_after_duplicate:
  "currentParticipants (registration
       (sample_event 5000 [sample_participant ''p1'' ''u1'', sample_participant ''p2'' ''u1''])) =
     int (length (participants
       (sample_event 5000 [sample_participant ''p1'' ''u1'', sample_participant ''p2'' ''u1'']))) \<and>
   code (fst (unregister_handler
       (sample_db (sample_event 5000 [sample_participant ''p1'' ''u1'', sample_participant ''p2'' ''u1'']))
       ''ev1'' \<lparr>ru_id = ''u1'', ru_role = ''student''\<rparr>)) = 200 \<and>
   (\<exists>d. events (snd (unregister_handler
       (sample_db (sample_event 5000 [sample_participant ''p1'' ''u1'', sample_participant ''p2'' ''u1'']))
       ''ev1'' \<lparr>ru_id = ''u1'', ru_role = ''student''\<rparr>)) ''ev1'' = Some d \<and>
        participants d = [] \<and> currentParticipants (registration d) = 1) \<and>
   currentParticipants (registration (sample_event 5000 [sample_participant ''p1'' meera_id])) =
     int (length (participants (sample_event 5000 [sample_participant ''p1'' meera_id]))) \<and>
   distinct (map p_user (participants (sample_event 5000 [sample_participant ''p1'' meera_id]))) \<and>
   (\<exists>d. events (foldl (handle hex24_cast)
                  (hex_db (sample_event 5000 [sample_participant ''p1'' meera_id]))
                  [AdminRegister (sample_env 9000) ''ev1'' (Some meera_id_upper),
                   Unregister ''ev1'' \<lparr>ru_id = meera_id, ru_role = ''student''\<rparr>]) ''ev1'' = Some d \<and>
        participants d = [] \<and> currentParticipants (registration d) = 1)"
  by (simp add: unregister_handler_def sample_db_def hex_db_def sample_event_def
      sample_participant_def new_participant_def unregisterUser_def Let_def
      admin_register_handler_def hex24_cast_meera_upper meera_upper_differs
      registerUser_empty ids_nonempty meera_upper_differs [symmetric] save_event_def
      push_registeredEvent_def pull_registeredEvent_def)

section \<open>Unregistering\<close>

text \<open>
  C5. The unregister handler answers "You are not registered for this event" and leaves
  the store as it was exactly when the user is not among the participants. When the user
  is among them it succeeds: every entry of that user is removed, the counter becomes
  \<open>max 0 (counter - 1)\<close> and so is never negative, and \<^verbatim>\<open>canUserRegister\<close> no
  longer gives the already-registered reason.
\<close>

theorem unregister_rule:
  assumes "events s eid = Some e"
  shows
  "(\<not> list_ex (\<lambda>p. p_user p = ru_id ru) (participants e) \<longrightarrow>
      unregister_handler s eid ru = (failure 400 ''You are not registered for this event'', s)) \<and>
   (list_ex (\<lambda>p. p_user p = ru_id ru) (participants e) \<longrightarrow>
      code (fst (unregister_handler s eid ru)) = 200 \<and>
      events (snd (unregister_handler s eid ru)) eid = Some (unregisterUser e (ru_id ru)) \<and>
      participants (unregisterUser e (ru_id ru)) =
        filter (\<lambda>p. p_user p \<noteq> ru_id ru) (participants e) \<and>
      \<not> list_ex (\<lambda>p. p_user p = ru_id ru) (participants (unregisterUser e (ru_id ru))) \<and>
      currentParticipants (registration (unregisterUser e (ru_id ru))) =
        max 0 (currentParticipants (registration e) - 1) \<and>
      0 \<le> currentParticipants (registration (unregisterUser e (ru_id ru))) \<and>
      reason (canUserRegister (unregisterUser e (ru_id ru)) now (ru_id ru)) \<noteq>
        Some ''Already registered'')"
  using assms
  by (simp add: unregister_handler_def unregisterUser_def canUserRegister_def Let_def list_ex_iff)

theorem unregister_rule_witness:
  "events (sample_db (sample_event 5000 [sample_participant ''p1'' ''u1''])) ''ev1'' =
     Some (sample_event 5000 [sample_participant ''p1'' ''u1'']) \<and>
   unregister_handler (sample_db (sample_event 5000 [sample_participant ''p1'' ''u1''])) ''ev1''
       \<lparr>ru_id = ''u2'', ru_role = ''student''\<rparr> =
     (failure 400 ''You are not registered for this event'',
      sample_db (sample_event 5000 [sample_participant ''p1'' ''u1''])) \<and>
   list_ex (\<lambda>p. p_user p = ''u1'') (participants (sample_event 5000 [sample_participant ''p1'' ''u1''])) \<and>
   events (snd (unregister_handler (sample_db (sample_event 5000 [sample_participant ''p1'' ''u1'']))
                  ''ev1'' \<lparr>ru_id = ''u1'', ru_role = ''student''\<rparr>)) ''ev1'' =
     Some (unregisterUser (sample_event 5000 [sample_participant ''p1'' ''u1'']) ''u1'') \<and>
   currentParticipants (registration
       (unregisterUser (sample_event 5000 [sample_participant ''p1'' ''u1'']) ''u1'')) = 0"
  using unregister_rule [where s = "sample_db (sample_event 5000 [sample_participant ''p1'' ''u1''])"
      and eid = "''ev1''" and e = "sample_event 5000 [sample_participant ''p1'' ''u1'']"
      and ru = "\<lparr>ru_id = ''u2'', ru_role = ''student''\<rparr>" and now = 0]
    unregister_rule [where s = "sample_db (sample_event 5000 [sample_participant ''p1'' ''u1''])"
      and eid = "''ev1''" and e = "sample_event 5000 [sample_participant ''p1'' ''u1'']"
      and ru = "\<lparr>ru_id = ''u1'', ru_role = ''student''\<rparr>" and now = 0]
  by (simp add: sample_db_def sample_event_def sample_participant_def new_participant_def)

section \<open>Administrative registration\<close>

lemma admin_register_ignores_deadline:
  assumes "events s eid = Some e"
  shows "fst (admin_register_handler cast
               (save_event s eid (e\<lparr>registration := (registration e)\<lparr>deadline := d\<rparr>\<rparr>))
               v eid userId) =
         fst (admin_register_handler cast s v eid userId)"
  using assms
  by (simp add: admin_register_handler_def Let_def registerUser_empty split: option.splits)

text \<open>
  C6. The duplicate test of the admin handler compares the stored ids with the raw
  \<^verbatim>\<open>userId\<close> of the body. For the registered user of the sample event, named by the
  canonical id, the request is refused with "User is already registered for this event"
  and the store is unchanged; named by the upper-case spelling of the same id, which casts
  to the same user, the request (made 4 seconds after the deadline) is answered with 200
  and the event then holds two entries of that user.
\<close>

theorem admin_duplicate_missed:
  "list_ex (\<lambda>p. p_user p = meera_id)
     (participants (sample_event 5000 [sample_participant ''p1'' meera_id])) \<and>
   hex24_cast meera_id_upper = Some meera_id \<and>
   admin_register_handler hex24_cast (hex_db (sample_event 5000 [sample_participant ''p1'' meera_id]))
       (sample_env 9000) ''ev1'' (Some meera_id) =
     (failure 400 ''User is already registered for this event'',
      hex_db (sample_event 5000 [sample_participant ''p1'' meera_id])) \<and>
   code (fst (admin_register_handler hex24_cast
                (hex_db (sample_event 5000 [sample_participant ''p1'' meera_id]))
                (sample_env 9000) ''ev1'' (Some meera_id_upper))) = 200 \<and>
   (\<exists>d. events (snd (admin_register_handler hex24_cast
                        (hex_db (sample_event 5000 [sample_participant ''p1'' meera_id]))
                        (sample_env 9000) ''ev1'' (Some meera_id_upper))) ''ev1'' = Some d \<and>
        map p_user (participants d) = [meera_id, meera_id] \<and>
        map p_status (participants d) = [''registered'', ''registered''] \<and>
        currentParticipants (registration d) = 2)"
  by (simp add: hex_db_def sample_event_def sample_participant_def new_participant_def Let_def
      admin_register_handler_def hex24_cast_meera_upper hex24_cast_meera meera_upper_differs
      registerUser_empty ids_nonempty meera_upper_differs [symmetric] save_event_def
      push_registeredEvent_def)

text \<open>
  C10. After every successful admin registration the entry appended to the event's
  participants has status \<^verbatim>\<open>registered\<close>, the entry appended to the user's
  \<^verbatim>\<open>registeredEvents\<close> has status \<^verbatim>\<open>confirmed\<close>, and so the two sides
  disagree.
\<close>

theorem admin_register_status_mismatch:
  assumes "admin_register_handler cast s v eid userId = (resp, s')" and "code resp = 200"
  shows
  "\<exists>raw uid e u e' u' p r.
     userId = Some raw \<and> cast raw = Some uid \<and>
     events s eid = Some e \<and> users s uid = Some u \<and>
     events s' eid = Some e' \<and> users s' uid = Some u' \<and>
     participants e' = participants e @ [p] \<and>
     p_user p = uid \<and> p_status p = ''registered'' \<and>
     registeredEvents u' = registeredEvents u @ [r] \<and>
     re_event r = eid \<and> re_status r = ''confirmed'' \<and>
     p_status p \<noteq> re_status r"
proof -
  from assms obtain raw uid e u e1 where
    h: "userId = Some raw" "cast raw = Some uid" "events s eid = Some e" "users s uid = Some u"
       "registerUser e (new_pid v) (t_push v) uid empty_registration_data = Inr e1"
       "\<not> list_ex (\<lambda>p. p_user p = raw) (participants e)" "raw \<noteq> []"
    by (auto simp: admin_register_handler_def Let_def failure_def
        split: option.splits if_splits sum.splits)
  let ?p = "new_participant (new_pid v) (t_push v) uid empty_registration_data"
  let ?r = "\<lparr>re_event = eid, re_registeredAt = t_mirror v, re_status = ''confirmed''\<rparr>"
  from assms(1) h have s': "s' = push_registeredEvent (save_event s eid e1) uid ?r"
    by (simp add: admin_register_handler_def Let_def)
  have "events s' eid = Some e1" by (simp add: s')
  moreover have "users s' uid = Some (u\<lparr>registeredEvents := registeredEvents u @ [?r]\<rparr>)"
    using h(4) by (simp add: s' users_push_registeredEvent)
  moreover have "participants e1 = participants e @ [?p]"
    using h(5) by (simp add: registerUser_Inr)
  moreover have "p_user ?p = uid" "p_status ?p = ''registered''"
    by (simp_all add: new_participant_def)
  ultimately show ?thesis using h(1,2,3,4) by force
qed

theorem admin_register_status_mismatch_witness:
  "admin_register_handler hex24_cast (hex_db (sample_event 5000 [sample_participant ''p1'' meera_id]))
       (sample_env 9000) ''ev1'' (Some ravi_id) =
     (\<lparr>code = 200, success = True, message = Some ''User registered for event successfully'',
       data = Some (JObj [(''eventId'', JStr ''ev1''), (''userId'', JStr ravi_id)])\<rparr>,
      snd (admin_register_handler hex24_cast
             (hex_db (sample_event 5000 [sample_participant ''p1'' meera_id]))
             (sample_env 9000) ''ev1'' (Some ravi_id))) \<and>
   (\<exists>e' u' p r.
      events (snd (admin_register_handler hex24_cast
             (hex_db (sample_event 5000 [sample_participant ''p1'' meera_id]))
             (sample_env 9000) ''ev1'' (Some ravi_id))) ''ev1'' = Some e' \<and>
      users (snd (admin_register_handler hex24_cast
             (hex_db (sample_event 5000 [sample_participant ''p1'' meera_id]))
             (sample_env 9000) ''ev1'' (Some ravi_id))) ravi_id = Some u' \<and>
      participants e' = [sample_participant ''p1'' meera_id, p] \<and>
      p_user p = ravi_id \<and> p_status p = ''registered'' \<and>
      registeredEvents u' = [r] \<and> re_status r = ''confirmed'')"
proof -
  let ?e = "sample_event 5000 [sample_participant ''p1'' meera_id]"
  let ?s = "hex_db ?e"
  let ?out = "admin_register_handler hex24_cast ?s (sample_env 9000) ''ev1'' (Some ravi_id)"
  let ?resp = "\<lparr>code = 200, success = True, message = Some ''User registered for event successfully'',
       data = Some (JObj [(''eventId'', JStr ''ev1''), (''userId'', JStr ravi_id)])\<rparr>"
  have run: "?out = (?resp, snd ?out)"
    by (simp add: admin_register_handler_def hex_db_def sample_event_def
        sample_participant_def new_participant_def Let_def hex24_cast_ravi ravi_not_meera
        ids_nonempty registerUser_empty)
  have ok: "code ?resp = 200" by simp
  have ev: "events ?s ''ev1'' = Some ?e" by (simp add: hex_db_def)
  have u2: "users ?s ravi_id = Some (sample_user ''ravi'')" by (simp add: hex_db_def)
  have ps: "participants ?e = [sample_participant ''p1'' meera_id]" by (simp add: sample_event_def)
  have regs: "registeredEvents (sample_user ''ravi'') = []" by (simp add: sample_user_def)
  from admin_register_status_mismatch [OF run ok] hex24_cast_ravi ev u2 ps regs
  have "\<exists>e' u' p r.
      events (snd ?out) ''ev1'' = Some e' \<and> users (snd ?out) ravi_id = Some u' \<and>
      participants e' = [sample_participant ''p1'' meera_id, p] \<and>
      p_user p = ravi_id \<and> p_status p = ''registered'' \<and>
      registeredEvents u' = [r] \<and> re_status r = ''confirmed''"
    by fastforce
  with run show ?thesis by (intro conjI) assumption+
qed

section \<open>Changing a participant's status\<close>

text \<open>
  C7. A status value outside the four valid strings is rejected and the store is left as
  it was. For a valid value sent by the organizer, the participant is looked up by the
  entry's own \<^verbatim>\<open>_id\<close>: if there is none the handler answers "Participant not found"
  and changes nothing; otherwise the first entry with that \<^verbatim>\<open>_id\<close> gets the new
  status in place, whatever its status was, and nothing else in the event changes.
\<close>

theorem set_status_rule:
  "(status \<notin> JStr ` set valid_statuses \<longrightarrow>
      set_status_handler s eid pid ru status =
        (failure 400
           ''Invalid status. Must be one of: registered, confirmed, attended, cancelled'', s)) \<and>
   (st \<in> set valid_statuses \<and> events s eid = Some e \<and> organizer_user e = ru_id ru \<longrightarrow>
      (find (\<lambda>p. p_id p = pid) (participants e) = None \<longrightarrow>
         set_status_handler s eid pid ru (JStr st) = (failure 404 ''Participant not found'', s)) \<and>
      (\<forall>p. find (\<lambda>p. p_id p = pid) (participants e) = Some p \<longrightarrow>
         code (fst (set_status_handler s eid pid ru (JStr st))) = 200 \<and>
         (\<exists>i<length (participants e).
            participants e ! i = p \<and> p_id p = pid \<and>
            (\<forall>j<i. p_id (participants e ! j) \<noteq> pid) \<and>
            events (snd (set_status_handler s eid pid ru (JStr st))) eid =
              Some (e\<lparr>participants := (participants e)[i := p\<lparr>p_status := st\<rparr>]\<rparr>))))"
proof (intro conjI impI allI)
  assume "status \<notin> JStr ` set valid_statuses"
  then show "set_status_handler s eid pid ru status =
        (failure 400
           ''Invalid status. Must be one of: registered, confirmed, attended, cancelled'', s)"
    by (simp add: set_status_handler_def valid_status_cases)
next
  assume a: "st \<in> set valid_statuses \<and> events s eid = Some e \<and> organizer_user e = ru_id ru"
    and "find (\<lambda>p. p_id p = pid) (participants e) = None"
  then show "set_status_handler s eid pid ru (JStr st) = (failure 404 ''Participant not found'', s)"
    by (simp add: set_status_handler_def)
next
  fix p
  assume a: "st \<in> set valid_statuses \<and> events s eid = Some e \<and> organizer_user e = ru_id ru"
    and f: "find (\<lambda>p. p_id p = pid) (participants e) = Some p"
  from a f show "code (fst (set_status_handler s eid pid ru (JStr st))) = 200"
    by (simp add: set_status_handler_def Let_def)
  from f obtain i where i: "i < length (participants e)" "p_id (participants e ! i) = pid"
      "p = participants e ! i" "\<forall>j<i. p_id (participants e ! j) \<noteq> pid"
    unfolding find_Some_iff by blast
  have "set_status_by_id pid st (participants e) = (participants e)[i := p\<lparr>p_status := st\<rparr>]"
    using set_status_by_id_update [OF i(1) i(2) i(4)] i(3) by simp
  with a f have "events (snd (set_status_handler s eid pid ru (JStr st))) eid =
              Some (e\<lparr>participants := (participants e)[i := p\<lparr>p_status := st\<rparr>]\<rparr>)"
    by (simp add: set_status_handler_def Let_def)
  with i show "\<exists>i<length (participants e).
            participants e ! i = p \<and> p_id p = pid \<and>
            (\<forall>j<i. p_id (participants e ! j) \<noteq> pid) \<and>
            events (snd (set_status_handler s eid pid ru (JStr st))) eid =
              Some (e\<lparr>participants := (participants e)[i := p\<lparr>p_status := st\<rparr>]\<rparr>)"
    by blast
qed

theorem set_status_rule_witness:
  "JNum 3 \<notin> JStr ` set valid_statuses \<and>
   JStr ''waitlisted'' \<notin> JStr ` set valid_statuses \<and>
   set_status_handler (sample_db (sample_event 5000 [sample_participant ''p1'' ''u1'']))
       ''ev1'' ''p1'' \<lparr>ru_id = ''org1'', ru_role = ''student''\<rparr> (JStr ''waitlisted'') =
     (failure 400 ''Invalid status. Must be one of: registered, confirmed, attended, cancelled'',
      sample_db (sample_event 5000 [sample_participant ''p1'' ''u1''])) \<and>
   ''attended'' \<in> set valid_statuses \<and>
   events (sample_db (sample_event 5000 [sample_participant ''p1'' ''u1''])) ''ev1'' =
     Some (sample_event 5000 [sample_participant ''p1'' ''u1'']) \<and>
   organizer_user (sample_event 5000 [sample_participant ''p1'' ''u1'']) = ''org1'' \<and>
   find (\<lambda>p. p_id p = ''u1'') (participants (sample_event 5000 [sample_participant ''p1'' ''u1''])) = None \<and>
   set_status_handler (sample_db (sample_event 5000 [sample_participant ''p1'' ''u1'']))
       ''ev1'' ''u1'' \<lparr>ru_id = ''org1'', ru_role = ''student''\<rparr> (JStr ''attended'') =
     (failure 404 ''Participant not found'',
      sample_db (sample_event 5000 [sample_participant ''p1'' ''u1''])) \<and>
   find (\<lambda>p. p_id p = ''p1'') (participants (sample_event 5000 [sample_participant ''p1'' ''u1''])) =
     Some (sample_participant ''p1'' ''u1'') \<and>
   events (snd (set_status_handler (sample_db (sample_event 5000 [sample_participant ''p1'' ''u1'']))
                  ''ev1'' ''p1'' \<lparr>ru_id = ''org1'', ru_role = ''student''\<rparr> (JStr ''attended''))) ''ev1'' =
     Some ((sample_event 5000 [sample_participant ''p1'' ''u1''])
             \<lparr>participants := [(sample_participant ''p1'' ''u1'')\<lparr>p_status := ''attended''\<rparr>]\<rparr>)"
proof -
  let ?e = "sample_event 5000 [sample_participant ''p1'' ''u1'']"
  let ?s = "sample_db ?e"
  let ?ru = "\<lparr>ru_id = ''org1'', ru_role = ''student''\<rparr>"
  have bad: "JNum 3 \<notin> JStr ` set valid_statuses" "JStr ''waitlisted'' \<notin> JStr ` set valid_statuses"
    by (auto simp: valid_statuses_def)
  have good: "''attended'' \<in> set valid_statuses" by (simp add: valid_statuses_def)
  have ev: "events ?s ''ev1'' = Some ?e" by (simp add: sample_db_def)
  have org: "organizer_user ?e = ''org1''" by (simp add: sample_event_def)
  have org': "organizer_user ?e = ru_id ?ru" by (simp add: sample_event_def)
  have ps: "participants ?e = [sample_participant ''p1'' ''u1'']" by (simp add: sample_event_def)
  have none: "find (\<lambda>p. p_id p = ''u1'') (participants ?e) = None"
    by (simp add: sample_event_def sample_participant_def new_participant_def)
  have some: "find (\<lambda>p. p_id p = ''p1'') (participants ?e) = Some (sample_participant ''p1'' ''u1'')"
    by (simp add: sample_event_def sample_participant_def new_participant_def)
  from set_status_rule [where status = "JStr ''waitlisted''" and s = ?s and eid = "''ev1''"
      and pid = "''p1''" and ru = ?ru] bad
  have r1: "set_status_handler ?s ''ev1'' ''p1'' ?ru (JStr ''waitlisted'') =
     (failure 400 ''Invalid status. Must be one of: registered, confirmed, attended, cancelled'', ?s)"
    by blast
  from set_status_rule [where st = "''attended''" and s = ?s and eid = "''ev1''" and e = ?e
      and pid = "''u1''" and ru = ?ru] good ev org' none
  have r2: "set_status_handler ?s ''ev1'' ''u1'' ?ru (JStr ''attended'') =
     (failure 404 ''Participant not found'', ?s)"
    by blast
  from set_status_rule [where st = "''attended''" and s = ?s and eid = "''ev1''" and e = ?e
      and pid = "''p1''" and ru = ?ru] good ev org' some
  obtain i where i: "i < length (participants ?e)"
    "events (snd (set_status_handler ?s ''ev1'' ''p1'' ?ru (JStr ''attended''))) ''ev1'' =
       Some (?e\<lparr>participants := (participants ?e)[i := (sample_participant ''p1'' ''u1'')\<lparr>p_status := ''attended''\<rparr>]\<rparr>)"
    by blast
  from i(1) have "i = 0" by (simp add: ps)
  with i(2) have r3: "events (snd (set_status_handler ?s ''ev1'' ''p1'' ?ru (JStr ''attended''))) ''ev1'' =
     Some (?e\<lparr>participants := [(sample_participant ''p1'' ''u1'')\<lparr>p_status := ''attended''\<rparr>]\<rparr>)"
    by (simp add: ps)
  from bad r1 good ev org none r2 some r3 show ?thesis by blast
qed

section \<open>The role-filtered view\<close>

lemma delete_participants_toObject:
  "AList.delete ''participants'' (toObject us eid (e\<lparr>participants := ps'\<rparr>)) =
   AList.delete ''participants'' (toObject us eid e)"
  by (simp add: toObject_def)

lemma isOrganizer_participants [simp]:
  "isOrganizer us (e\<lparr>participants := ps'\<rparr>) viewer = isOrganizer us e viewer"
  by (simp add: isOrganizer_def split: option.splits)

lemma present_unprivileged:
  assumes "isOrganizer us e viewer = Inr False" and "\<not> isAdmin viewer"
  shows "present us eid e viewer =
           Inr (AList.update ''participantCount'' (JNum (int (length (participants e))))
                  (AList.delete ''participants'' (toObject us eid e)))"
  using assms by (simp add: present_def Let_def AList.delete_update)

text \<open>
  C3. For a viewer who is neither the organizer nor an admin (an anonymous viewer
  included), the event object of the single-event handler has no \<^verbatim>\<open>participants\<close>
  key and carries \<^verbatim>\<open>participantCount\<close>, the length of the participants list. The
  handler gives such a view whenever the viewer is anonymous or the organizer's user
  document exists; otherwise reading the populated organizer throws and there is no view.
  Replacing the participants by any list of the same length leaves the result unchanged:
  nothing of the participant entries reaches this object.
\<close>

theorem roster_privacy:
  assumes "case viewer of None \<Rightarrow> True
           | Some ru \<Rightarrow> ru_id ru \<noteq> organizer_user e \<and> ru_role ru \<noteq> ''admin''"
  shows
  "(case present us eid e viewer of
      Inl err \<Rightarrow> viewer \<noteq> None \<and> us (organizer_user e) = None
    | Inr obj \<Rightarrow>
        ''participants'' \<notin> fst ` set obj \<and>
        map_of obj ''participants'' = None \<and>
        map_of obj ''participantCount'' = Some (JNum (int (length (participants e))))) \<and>
   (viewer = None \<or> us (organizer_user e) \<noteq> None \<longrightarrow>
      (\<exists>obj. present us eid e viewer = Inr obj)) \<and>
   (length ps' = length (participants e) \<longrightarrow>
      present us eid (e\<lparr>participants := ps'\<rparr>) viewer = present us eid e viewer)"
proof -
  have adm: "\<not> isAdmin viewer"
    using assms by (simp add: isAdmin_def split: option.splits)
  show ?thesis
  proof (cases "isOrganizer us e viewer")
    case (Inl err)
    then have "viewer \<noteq> None \<and> us (organizer_user e) = None"
      by (auto simp: isOrganizer_def split: option.splits)
    moreover from Inl have "present us eid e viewer = Inl err"
      and "present us eid (e\<lparr>participants := ps'\<rparr>) viewer = Inl err"
      by (simp_all add: present_def)
    ultimately show ?thesis by auto
  next
    case (Inr org)
    with assms have org: "isOrganizer us e viewer = Inr False"
      by (auto simp: isOrganizer_def split: option.splits)
    let ?obj = "AList.update ''participantCount'' (JNum (int (length (participants e))))
                  (AList.delete ''participants'' (toObject us eid e))"
    have p: "present us eid e viewer = Inr ?obj"
      by (rule present_unprivileged [OF org adm])
    have k1: "''participants'' \<notin> fst ` set ?obj"
      by (simp add: AList.dom_update AList.delete_notin_dom)
    then have k2: "map_of ?obj ''participants'' = None"
      by (simp add: map_of_eq_None_iff)
    have k3: "map_of ?obj ''participantCount'' = Some (JNum (int (length (participants e))))"
      by (simp add: AList.update_conv')
    have k4: "present us eid (e\<lparr>participants := ps'\<rparr>) viewer = present us eid e viewer"
      if "length ps' = length (participants e)"
    proof -
      have "isOrganizer us (e\<lparr>participants := ps'\<rparr>) viewer = Inr False"
        using org by simp
      from present_unprivileged [OF this adm, of eid] that show ?thesis
        by (simp add: p delete_participants_toObject)
    qed
    from p k1 k2 k3 k4 show ?thesis by simp
  qed
qed

theorem roster_privacy_witness:
  "ru_id \<lparr>ru_id = ''u2'', ru_role = ''student''\<rparr> \<noteq>
     organizer_user (sample_event 5000 [sample_participant ''p1'' ''u1'']) \<and>
   ru_role \<lparr>ru_id = ''u2'', ru_role = ''student''\<rparr> \<noteq> ''admin'' \<and>
   sample_users (organizer_user (sample_event 5000 [sample_participant ''p1'' ''u1''])) \<noteq> None \<and>
   length [sample_participant ''p7'' ''u2''] =
     length (participants (sample_event 5000 [sample_participant ''p1'' ''u1''])) \<and>
   (\<exists>obj. present sample_users ''ev1'' (sample_event 5000 [sample_participant ''p1'' ''u1''])
             (Some \<lparr>ru_id = ''u2'', ru_role = ''student''\<rparr>) = Inr obj \<and>
          map_of obj ''participants'' = None \<and>
          map_of obj ''participantCount'' = Some (JNum 1)) \<and>
   present sample_users ''ev1''
     ((sample_event 5000 [sample_participant ''p1'' ''u1''])
        \<lparr>participants := [sample_participant ''p7'' ''u2'']\<rparr>)
     (Some \<lparr>ru_id = ''u2'', ru_role = ''student''\<rparr>) =
   present sample_users ''ev1'' (sample_event 5000 [sample_participant ''p1'' ''u1''])
     (Some \<lparr>ru_id = ''u2'', ru_role = ''student''\<rparr>)"
proof -
  let ?e = "sample_event 5000 [sample_participant ''p1'' ''u1'']"
  let ?v = "Some \<lparr>ru_id = ''u2'', ru_role = ''student''\<rparr>"
  have h: "case ?v of None \<Rightarrow> True
           | Some ru \<Rightarrow> ru_id ru \<noteq> organizer_user ?e \<and> ru_role ru \<noteq> ''admin''"
    by (simp add: sample_event_def)
  have a: "ru_id \<lparr>ru_id = ''u2'', ru_role = ''student''\<rparr> \<noteq> organizer_user ?e"
    and b: "ru_role \<lparr>ru_id = ''u2'', ru_role = ''student''\<rparr> \<noteq> ''admin''"
    by (simp_all add: sample_event_def)
  have c: "sample_users (organizer_user ?e) \<noteq> None"
    by (simp add: sample_event_def sample_users_def)
  have d: "length [sample_participant ''p7'' ''u2''] = length (participants ?e)"
    by (simp add: sample_event_def)
  have n: "int (length (participants ?e)) = 1" by (simp add: sample_event_def)
  note t = roster_privacy [OF h, where us = sample_users and eid = "''ev1''"
      and ps' = "[sample_participant ''p7'' ''u2'']"]
  from t c obtain obj where obj: "present sample_users ''ev1'' ?e ?v = Inr obj" by blast
  with t n have "map_of obj ''participants'' = None"
    "map_of obj ''participantCount'' = Some (JNum 1)" by simp_all
  with obj have e: "\<exists>obj. present sample_users ''ev1'' ?e ?v = Inr obj \<and>
          map_of obj ''participants'' = None \<and>
          map_of obj ''participantCount'' = Some (JNum 1)" by blast
  from t d have f: "present sample_users ''ev1'' (?e\<lparr>participants := [sample_participant ''p7'' ''u2'']\<rparr>) ?v =
    present sample_users ''ev1'' ?e ?v" by blast
  from a b c d e f show ?thesis by blast
qed

section \<open>Rating aggregation\<close>

lemma rated3_val:
  "rated3 =
     \<lparr>notes_tbl = [''n1'' \<mapsto> \<lparr>n_is_active = True, n_rating = Some 4, n_rating_count = 3\<rparr>,
                   ''n2'' \<mapsto> \<lparr>n_is_active = True, n_rating = Some 2, n_rating_count = 1\<rparr>],
      note_ratings = [\<lparr>nr_note_id = ''n2'', nr_user_id = ''a'', nr_rating = 2\<rparr>,
        \<lparr>nr_note_id = ''n1'', nr_user_id = ''a'', nr_rating = 5\<rparr>,
        \<lparr>nr_note_id = ''n1'', nr_user_id = ''b'', nr_rating = 3\<rparr>,
        \<lparr>nr_note_id = ''n1'', nr_user_id = ''c'', nr_rating = 4\<rparr>]\<rparr>"
  by (simp add: rated3_def rate_handler_def sample_notes_db_def rater_def Let_def ratings_of_def
      average_rating_def eval_nat_numeral fun_upd_twist)

lemma round_80_3: "round (80 / 3 :: rat) = 27"
  by (rule round_unique) simp_all

lemma average_rating_134: "average_rating [1, 3, 4] = Some (27 / 10)"
  by (simp add: average_rating_def round_80_3)

lemma upsert_rating_keys_present:
  "(nr_note_id r, nr_user_id r) \<in> (\<lambda>x. (nr_note_id x, nr_user_id x)) ` set tbl \<Longrightarrow>
   map (\<lambda>x. (nr_note_id x, nr_user_id x)) (upsert_rating r tbl) =
   map (\<lambda>x. (nr_note_id x, nr_user_id x)) tbl"
  by (induction tbl) auto

lemma upsert_rating_absent:
  "(nr_note_id r, nr_user_id r) \<notin> (\<lambda>x. (nr_note_id x, nr_user_id x)) ` set tbl \<Longrightarrow>
   upsert_rating r tbl = tbl @ [r]"
  by (induction tbl) auto

lemma upsert_rating_others:
  "distinct (map (\<lambda>x. (nr_note_id x, nr_user_id x)) tbl) \<Longrightarrow>
   filter (\<lambda>x. (nr_note_id x, nr_user_id x) \<noteq> (nr_note_id r, nr_user_id r)) (upsert_rating r tbl) =
   filter (\<lambda>x. (nr_note_id x, nr_user_id x) \<noteq> (nr_note_id r, nr_user_id r)) tbl"
  by (induction tbl) (auto simp: image_iff intro!: filter_id_conv[THEN iffD2])

lemma upsert_rating_mem: "r \<in> set (upsert_rating r tbl)"
  by (induction tbl) auto

lemma length_filter_note:
  "length (filter (\<lambda>x. nr_note_id x = nid) tbl) =
   length (filter (\<lambda>k. fst k = nid) (map (\<lambda>x. (nr_note_id x, nr_user_id x)) tbl))"
  by (simp add: filter_map comp_def)

lemma upsert_rating_distinct:
  "distinct (map (\<lambda>x. (nr_note_id x, nr_user_id x)) tbl) \<Longrightarrow>
   distinct (map (\<lambda>x. (nr_note_id x, nr_user_id x)) (upsert_rating r tbl))"
proof (cases "(nr_note_id r, nr_user_id r) \<in> (\<lambda>x. (nr_note_id x, nr_user_id x)) ` set tbl")
  case True
  assume "distinct (map (\<lambda>x. (nr_note_id x, nr_user_id x)) tbl)"
  with True show ?thesis by (simp add: upsert_rating_keys_present)
next
  case False
  assume "distinct (map (\<lambda>x. (nr_note_id x, nr_user_id x)) tbl)"
  with False show ?thesis by (simp add: upsert_rating_absent)
qed

lemma upsert_rating_other_note:
  "nid' \<noteq> nr_note_id r \<Longrightarrow>
   filter (\<lambda>x. nr_note_id x = nid') (upsert_rating r tbl) = filter (\<lambda>x. nr_note_id x = nid') tbl"
  by (induction tbl) auto

lemma rate_handler_success:
  assumes "notes_tbl s nid = Some n" and "n_is_active n" and "1 \<le> r" and "r \<le> 5"
  shows "rate_handler s nid ru r =
    (\<lparr>code = 200, success = True, message = Some ''Rating submitted successfully'', data = None\<rparr>,
     s\<lparr>notes_tbl := (notes_tbl s)(nid \<mapsto>
          n\<lparr>n_rating := average_rating (ratings_of nid
                 (upsert_rating \<lparr>nr_note_id = nid, nr_user_id = ru_id ru, nr_rating = r\<rparr> (note_ratings s))),
            n_rating_count := length (ratings_of nid
                 (upsert_rating \<lparr>nr_note_id = nid, nr_user_id = ru_id ru, nr_rating = r\<rparr> (note_ratings s)))\<rparr>),
       note_ratings := upsert_rating \<lparr>nr_note_id = nid, nr_user_id = ru_id ru, nr_rating = r\<rparr>
                         (note_ratings s)\<rparr>)"
  using assms by (simp add: rate_handler_def Let_def)

lemma rated3_resubmit:
  "snd (rate_handler rated3 ''n1'' (rater ''a'') 1) =
     \<lparr>notes_tbl = [''n1'' \<mapsto> \<lparr>n_is_active = True, n_rating = Some (27 / 10), n_rating_count = 3\<rparr>,
                   ''n2'' \<mapsto> \<lparr>n_is_active = True, n_rating = Some 2, n_rating_count = 1\<rparr>],
      note_ratings = [\<lparr>nr_note_id = ''n2'', nr_user_id = ''a'', nr_rating = 2\<rparr>,
        \<lparr>nr_note_id = ''n1'', nr_user_id = ''a'', nr_rating = 1\<rparr>,
        \<lparr>nr_note_id = ''n1'', nr_user_id = ''b'', nr_rating = 3\<rparr>,
        \<lparr>nr_note_id = ''n1'', nr_user_id = ''c'', nr_rating = 4\<rparr>]\<rparr>"
  by (simp add: rated3_val rate_handler_def rater_def Let_def ratings_of_def average_rating_134
      eval_nat_numeral fun_upd_twist)

text \<open>
  C8. A valid rating of an active note succeeds. The table keeps one row per
  (note, user): the rater's row holds the new value, all other rows are as before; a rater
  who had a row keeps the number of rows, and of ratings of the note, unchanged, a new
  rater adds one row. With \<open>rs\<close> the ratings of the rows of this note in the new table,
  the note stores \<open>round (sum rs / length rs * 10) / 10\<close> and \<open>length rs\<close>; the other
  notes and their rows are untouched. In a store that also holds a rating of 2 for a
  second note, ratings 5, 3, 4 by three users give the first note 4 and 3; a further 1 by
  the user who had rated 5 gives the ratings 1, 3, 4, the count 3 and 2.7.
\<close>

theorem rating_rule:
  assumes "notes_tbl s nid = Some n" and "n_is_active n" and "1 \<le> r" and "r \<le> 5"
    and "distinct (map (\<lambda>x. (nr_note_id x, nr_user_id x)) (note_ratings s))"
    and "rate_handler s nid ru r = (resp, s')"
    and "rs = map nr_rating (filter (\<lambda>x. nr_note_id x = nid) (note_ratings s'))"
  shows
  "code resp = 200 \<and>
   distinct (map (\<lambda>x. (nr_note_id x, nr_user_id x)) (note_ratings s')) \<and>
   \<lparr>nr_note_id = nid, nr_user_id = ru_id ru, nr_rating = r\<rparr> \<in> set (note_ratings s') \<and>
   filter (\<lambda>x. (nr_note_id x, nr_user_id x) \<noteq> (nid, ru_id ru)) (note_ratings s') =
     filter (\<lambda>x. (nr_note_id x, nr_user_id x) \<noteq> (nid, ru_id ru)) (note_ratings s) \<and>
   ((nid, ru_id ru) \<in> (\<lambda>x. (nr_note_id x, nr_user_id x)) ` set (note_ratings s) \<longrightarrow>
      length (note_ratings s') = length (note_ratings s) \<and>
      length rs = length (filter (\<lambda>x. nr_note_id x = nid) (note_ratings s))) \<and>
   ((nid, ru_id ru) \<notin> (\<lambda>x. (nr_note_id x, nr_user_id x)) ` set (note_ratings s) \<longrightarrow>
      note_ratings s' =
        note_ratings s @ [\<lparr>nr_note_id = nid, nr_user_id = ru_id ru, nr_rating = r\<rparr>] \<and>
      length rs = length (filter (\<lambda>x. nr_note_id x = nid) (note_ratings s)) + 1) \<and>
   rs \<noteq> [] \<and>
   notes_tbl s' nid =
     Some (n\<lparr>n_rating :=
               Some (of_int (round (of_int (sum_list rs) / of_int (int (length rs)) * (10 :: rat)))
                     / 10),
             n_rating_count := length rs\<rparr>) \<and>
   (\<forall>other. other \<noteq> nid \<longrightarrow>
      notes_tbl s' other = notes_tbl s other \<and>
      filter (\<lambda>x. nr_note_id x = other) (note_ratings s') =
        filter (\<lambda>x. nr_note_id x = other) (note_ratings s)) \<and>
   notes_tbl rated3 ''n1'' =
     Some \<lparr>n_is_active = True, n_rating = Some 4, n_rating_count = 3\<rparr> \<and>
   map nr_rating (filter (\<lambda>x. nr_note_id x = ''n1'') (note_ratings rated3)) = [5, 3, 4] \<and>
   map nr_rating (filter (\<lambda>x. nr_note_id x = ''n1'')
     (note_ratings (snd (rate_handler rated3 ''n1'' (rater ''a'') 1)))) = [1, 3, 4] \<and>
   notes_tbl (snd (rate_handler rated3 ''n1'' (rater ''a'') 1)) ''n1'' =
     Some \<lparr>n_is_active = True, n_rating = Some (27 / 10), n_rating_count = 3\<rparr>"
proof -
  let ?row = "\<lparr>nr_note_id = nid, nr_user_id = ru_id ru, nr_rating = r\<rparr>"
  let ?tbl = "upsert_rating ?row (note_ratings s)"
  have run: "rate_handler s nid ru r =
    (\<lparr>code = 200, success = True, message = Some ''Rating submitted successfully'', data = None\<rparr>,
     s\<lparr>notes_tbl := (notes_tbl s)(nid \<mapsto>
          n\<lparr>n_rating := average_rating (ratings_of nid ?tbl),
            n_rating_count := length (ratings_of nid ?tbl)\<rparr>),
       note_ratings := ?tbl\<rparr>)"
    by (rule rate_handler_success [OF assms(1-4)])
  with assms(6) have resp: "code resp = 200" and tbl: "note_ratings s' = ?tbl"
    and nt: "notes_tbl s' = (notes_tbl s)(nid \<mapsto>
          n\<lparr>n_rating := average_rating (ratings_of nid ?tbl),
            n_rating_count := length (ratings_of nid ?tbl)\<rparr>)"
    by auto
  have rs: "rs = ratings_of nid ?tbl" by (simp add: assms(7) tbl ratings_of_def)
  have c2: "distinct (map (\<lambda>x. (nr_note_id x, nr_user_id x)) ?tbl)"
    by (rule upsert_rating_distinct [OF assms(5)])
  have c3: "?row \<in> set ?tbl" by (rule upsert_rating_mem)
  have c4: "filter (\<lambda>x. (nr_note_id x, nr_user_id x) \<noteq> (nid, ru_id ru)) ?tbl =
     filter (\<lambda>x. (nr_note_id x, nr_user_id x) \<noteq> (nid, ru_id ru)) (note_ratings s)"
    using upsert_rating_others [OF assms(5), of ?row] by simp
  have c5: "length ?tbl = length (note_ratings s) \<and>
      length rs = length (filter (\<lambda>x. nr_note_id x = nid) (note_ratings s))"
    if "(nid, ru_id ru) \<in> (\<lambda>x. (nr_note_id x, nr_user_id x)) ` set (note_ratings s)"
  proof -
    from that have m: "map (\<lambda>x. (nr_note_id x, nr_user_id x)) ?tbl =
        map (\<lambda>x. (nr_note_id x, nr_user_id x)) (note_ratings s)"
      by (simp add: upsert_rating_keys_present)
    then have "length ?tbl = length (note_ratings s)" by (metis length_map)
    moreover have "length rs = length (filter (\<lambda>x. nr_note_id x = nid) (note_ratings s))"
      by (simp add: rs ratings_of_def length_filter_note m)
    ultimately show ?thesis by simp
  qed
  have c6: "?tbl = note_ratings s @ [?row] \<and>
      length rs = length (filter (\<lambda>x. nr_note_id x = nid) (note_ratings s)) + 1"
    if "(nid, ru_id ru) \<notin> (\<lambda>x. (nr_note_id x, nr_user_id x)) ` set (note_ratings s)"
    using that by (simp add: upsert_rating_absent rs ratings_of_def)
  have "nr_note_id ?row = nid" by simp
  with c3 have "\<exists>x\<in>set ?tbl. nr_note_id x = nid" by blast
  then have c7: "rs \<noteq> []"
    by (simp add: rs ratings_of_def filter_empty_conv)
  have c8: "notes_tbl s' nid =
     Some (n\<lparr>n_rating :=
               Some (of_int (round (of_int (sum_list rs) / of_int (int (length rs)) * (10 :: rat)))
                     / 10),
             n_rating_count := length rs\<rparr>)"
    using c7 by (simp add: nt rs [symmetric] average_rating_def Let_def)
  have c9: "\<forall>other. other \<noteq> nid \<longrightarrow>
      notes_tbl s' other = notes_tbl s other \<and>
      filter (\<lambda>x. nr_note_id x = other) (note_ratings s') =
        filter (\<lambda>x. nr_note_id x = other) (note_ratings s)"
    by (simp add: nt tbl upsert_rating_other_note)
  have d1: "notes_tbl rated3 ''n1'' =
     Some \<lparr>n_is_active = True, n_rating = Some 4, n_rating_count = 3\<rparr>"
    by (simp add: rated3_val)
  have d2: "map nr_rating (filter (\<lambda>x. nr_note_id x = ''n1'') (note_ratings rated3)) = [5, 3, 4]"
    by (simp add: rated3_val)
  have d3: "map nr_rating (filter (\<lambda>x. nr_note_id x = ''n1'')
     (note_ratings (snd (rate_handler rated3 ''n1'' (rater ''a'') 1)))) = [1, 3, 4]"
    by (simp add: rated3_resubmit)
  have d4: "notes_tbl (snd (rate_handler rated3 ''n1'' (rater ''a'') 1)) ''n1'' =
     Some \<lparr>n_is_active = True, n_rating = Some (27 / 10), n_rating_count = 3\<rparr>"
    by (simp add: rated3_resubmit)
  from c5 c6 have c5': "(nid, ru_id ru) \<in> (\<lambda>x. (nr_note_id x, nr_user_id x)) ` set (note_ratings s) \<longrightarrow>
      length (note_ratings s') = length (note_ratings s) \<and>
      length rs = length (filter (\<lambda>x. nr_note_id x = nid) (note_ratings s))"
    and c6': "(nid, ru_id ru) \<notin> (\<lambda>x. (nr_note_id x, nr_user_id x)) ` set (note_ratings s) \<longrightarrow>
      note_ratings s' =
        note_ratings s @ [\<lparr>nr_note_id = nid, nr_user_id = ru_id ru, nr_rating = r\<rparr>] \<and>
      length rs = length (filter (\<lambda>x. nr_note_id x = nid) (note_ratings s)) + 1"
    by (simp_all add: tbl)
  from c2 c3 c4 have c2': "distinct (map (\<lambda>x. (nr_note_id x, nr_user_id x)) (note_ratings s'))"
    and c3': "?row \<in> set (note_ratings s')"
    and c4': "filter (\<lambda>x. (nr_note_id x, nr_user_id x) \<noteq> (nid, ru_id ru)) (note_ratings s') =
     filter (\<lambda>x. (nr_note_id x, nr_user_id x) \<noteq> (nid, ru_id ru)) (note_ratings s)"
    by (simp_all add: tbl)
  show ?thesis
    by (intro conjI) (rule resp c2' c3' c4' c5' c6' c7 c8 c9 d1 d2 d3 d4)+
qed

theorem rating_rule_witness:
  "notes_tbl rated3 ''n1'' = Some \<lparr>n_is_active = True, n_rating = Some 4, n_rating_count = 3\<rparr> \<and>
   distinct (map (\<lambda>x. (nr_note_id x, nr_user_id x)) (note_ratings rated3)) \<and>
   (''n1'', ru_id (rater ''a'')) \<in> (\<lambda>x. (nr_note_id x, nr_user_id x)) ` set (note_ratings rated3) \<and>
   code (fst (rate_handler rated3 ''n1'' (rater ''a'') 1)) = 200 \<and>
   length (note_ratings (snd (rate_handler rated3 ''n1'' (rater ''a'') 1))) = 4 \<and>
   length (map nr_rating (filter (\<lambda>x. nr_note_id x = ''n1'')
             (note_ratings (snd (rate_handler rated3 ''n1'' (rater ''a'') 1))))) = 3 \<and>
   notes_tbl (snd (rate_handler rated3 ''n1'' (rater ''a'') 1)) ''n2'' =
     Some \<lparr>n_is_active = True, n_rating = Some 2, n_rating_count = 1\<rparr> \<and>
   (''n1'', ru_id (rater ''d'')) \<notin> (\<lambda>x. (nr_note_id x, nr_user_id x)) ` set (note_ratings rated3) \<and>
   note_ratings (snd (rate_handler rated3 ''n1'' (rater ''d'') 2)) =
     note_ratings rated3 @ [\<lparr>nr_note_id = ''n1'', nr_user_id = ''d'', nr_rating = 2\<rparr>] \<and>
   length (map nr_rating (filter (\<lambda>x. nr_note_id x = ''n1'')
             (note_ratings (snd (rate_handler rated3 ''n1'' (rater ''d'') 2))))) = 4"
proof -
  have a1: "notes_tbl rated3 ''n1'' =
      Some \<lparr>n_is_active = True, n_rating = Some 4, n_rating_count = 3\<rparr>"
    by (simp add: rated3_val)
  have a2: "n_is_active \<lparr>n_is_active = True, n_rating = Some 4, n_rating_count = 3\<rparr>" by simp
  have a3: "(1::int) \<le> 1" and a4: "(1::int) \<le> 5" and b3: "(1::int) \<le> 2" and b4: "(2::int) \<le> 5"
    by simp_all
  have a5: "distinct (map (\<lambda>x. (nr_note_id x, nr_user_id x)) (note_ratings rated3))"
    by (simp add: rated3_val)
  have a6: "(''n1'', ru_id (rater ''a'')) \<in>
      (\<lambda>x. (nr_note_id x, nr_user_id x)) ` set (note_ratings rated3)"
    by (simp add: rated3_val rater_def)
  have b6: "(''n1'', ru_id (rater ''d'')) \<notin>
      (\<lambda>x. (nr_note_id x, nr_user_id x)) ` set (note_ratings rated3)"
    by (simp add: rated3_val rater_def)
  have len: "length (note_ratings rated3) = 4"
    "length (filter (\<lambda>x. nr_note_id x = ''n1'') (note_ratings rated3)) = 3"
    by (simp_all add: rated3_val)
  have n2: "notes_tbl rated3 ''n2'' =
      Some \<lparr>n_is_active = True, n_rating = Some 2, n_rating_count = 1\<rparr>"
    by (simp add: rated3_val)
  have ne: "''n2'' \<noteq> ''n1''" by simp
  note t = rating_rule [OF a1 a2 a3 a4 a5 prod.collapse [symmetric] refl, of "rater ''a''"]
  note u = rating_rule [OF a1 a2 b3 b4 a5 prod.collapse [symmetric] refl, of "rater ''d''"]
  have r1: "code (fst (rate_handler rated3 ''n1'' (rater ''a'') 1)) = 200"
    by (rule t [THEN conjunct1])
  note t5 = t [THEN conjunct2, THEN conjunct2, THEN conjunct2, THEN conjunct2, THEN conjunct1,
      THEN mp, OF a6]
  from t5 [THEN conjunct1] have r2:
    "length (note_ratings (snd (rate_handler rated3 ''n1'' (rater ''a'') 1))) = 4"
    by (simp only: len)
  from t5 [THEN conjunct2] have r3: "length (map nr_rating (filter (\<lambda>x. nr_note_id x = ''n1'')
             (note_ratings (snd (rate_handler rated3 ''n1'' (rater ''a'') 1))))) = 3"
    by (simp only: len)
  note t9 = t [THEN conjunct2, THEN conjunct2, THEN conjunct2, THEN conjunct2, THEN conjunct2,
      THEN conjunct2, THEN conjunct2, THEN conjunct2, THEN conjunct1, THEN spec, THEN mp, OF ne]
  from t9 [THEN conjunct1] n2
  have r4: "notes_tbl (snd (rate_handler rated3 ''n1'' (rater ''a'') 1)) ''n2'' =
     Some \<lparr>n_is_active = True, n_rating = Some 2, n_rating_count = 1\<rparr>" by (simp only:)
  note u6 = u [THEN conjunct2, THEN conjunct2, THEN conjunct2, THEN conjunct2, THEN conjunct2,
      THEN conjunct1, THEN mp, OF b6]
  have rd: "ru_id (rater ''d'') = ''d''" by (simp add: rater_def)
  from u6 [THEN conjunct1] have r5: "note_ratings (snd (rate_handler rated3 ''n1'' (rater ''d'') 2)) =
     note_ratings rated3 @ [\<lparr>nr_note_id = ''n1'', nr_user_id = ''d'', nr_rating = 2\<rparr>]"
    by (simp only: rd)
  from u6 [THEN conjunct2] have r6: "length (map nr_rating (filter (\<lambda>x. nr_note_id x = ''n1'')
             (note_ratings (snd (rate_handler rated3 ''n1'' (rater ''d'') 2))))) = 4"
    by (simp add: len)
  show ?thesis
    by (intro conjI) (rule a1 a5 a6 r1 r2 r3 r4 b6 r5 r6)+
qed

end
